theory Spec2Isabelle
  imports Complex_Main
begin

section \<open>Temperature-ramp orchestration of vna_temperature_control_pid.py\<close>

text \<open>
  Python floats are modelled as the reals: arithmetic is exact, and the literal
  \<^verbatim>\<open>0.1\<close> is the real number one tenth. Every concrete input used below
  (20, 24.0625, 30, ...) is a dyadic rational on which float arithmetic is exact too,
  apart from 24.3, whose float computation gives the same list. The ramp planner is
  given a second time with the rounding of each float operation explicit, and the shape
  of its plans is proved there, for every rounding within an error bound.
\<close>

subsection \<open>Configuration constants (lines 25-30)\<close>

definition SAMPLING_INTERVAL_SECONDS :: real where
  "SAMPLING_INTERVAL_SECONDS = 5"

definition VNA_SWEEP_INTERVAL :: real where
  "VNA_SWEEP_INTERVAL = 60"

definition TEMP_TOLERANCE :: real where
  "TEMP_TOLERANCE = 1 / 2"

definition STABILITY_DURATION :: real where
  "STABILITY_DURATION = 5"

definition INTERMEDIATE_STEP_SIZE :: int where
  "INTERMEDIATE_STEP_SIZE = 1"

subsection \<open>Exceptions\<close>

text \<open>
  \<open>KeyboardInterrupt\<close> is not an \<^verbatim>\<open>Exception\<close> in Python (it derives from
  \<^verbatim>\<open>BaseException\<close>); \<open>ZeroDivisionError\<close> and \<open>DeviceError\<close> (any failure of
  an instrument call) are.
\<close>

datatype py_exn = KeyboardInterrupt | ZeroDivisionError | DeviceError

subsection \<open>Ramp planner: \<^verbatim>\<open>calculate_intermediate_temps\<close> (lines 190-227)\<close>

text \<open>Python's \<^verbatim>\<open>int(x)\<close> on a float truncates towards zero.\<close>

definition py_int :: "real \<Rightarrow> int" where
  "py_int x = (if 0 \<le> x then \<lfloor>x\<rfloor> else \<lceil>x\<rceil>)"

definition calculate_intermediate_temps ::
  "real \<Rightarrow> real \<Rightarrow> real \<Rightarrow> py_exn + (real list \<times> real)" where
  "calculate_intermediate_temps current_temp target_temp ramp_rate =
     (let temp_change = target_temp - current_temp;
          direction = (if temp_change > 0 then 1 else - 1 :: int);
          num_steps = py_int (\<bar>temp_change\<bar> / of_int INTERMEDIATE_STEP_SIZE)
      in if num_steps = 0 then Inr ([target_temp], 0)
         else
           let generated =
                 map (\<lambda>i. current_temp + of_int (direction * INTERMEDIATE_STEP_SIZE * i))
                   [1..num_steps];
               intermediate_temps =
                 (if \<bar>last generated - target_temp\<bar> > 1 / 10
                  then generated @ [target_temp] else generated)
           in if ramp_rate = 0 then Inl ZeroDivisionError
              else Inr (intermediate_temps, (of_int INTERMEDIATE_STEP_SIZE / ramp_rate) * 60))"

text \<open>
  The same function with the rounding of its float arithmetic made explicit: \<open>rnd\<close> maps
  the exact result of an operation to the float that the operation returns. Every
  subtraction, addition, division and multiplication of floats is rounded, and so are the
  conversion of the integer \<^verbatim>\<open>direction * INTERMEDIATE_STEP_SIZE * i\<close> to a float and
  the literal \<^verbatim>\<open>0.1\<close>; \<^verbatim>\<open>abs\<close> and the conversions of the integers 1 and 60 are
  exact. With the identity for \<open>rnd\<close> this is \<open>calculate_intermediate_temps\<close>.
\<close>

definition calculate_intermediate_temps_rounded ::
  "(real \<Rightarrow> real) \<Rightarrow> real \<Rightarrow> real \<Rightarrow> real \<Rightarrow> py_exn + (real list \<times> real)" where
  "calculate_intermediate_temps_rounded rnd current_temp target_temp ramp_rate =
     (let temp_change = rnd (target_temp - current_temp);
          direction = (if temp_change > 0 then 1 else - 1 :: int);
          num_steps = py_int (rnd (\<bar>temp_change\<bar> / of_int INTERMEDIATE_STEP_SIZE))
      in if num_steps = 0 then Inr ([target_temp], 0)
         else
           let generated =
                 map (\<lambda>i. rnd (current_temp +
                                 rnd (of_int (direction * INTERMEDIATE_STEP_SIZE * i))))
                   [1..num_steps];
               intermediate_temps =
                 (if \<bar>rnd (last generated - target_temp)\<bar> > rnd (1 / 10)
                  then generated @ [target_temp] else generated)
           in if ramp_rate = 0 then Inl ZeroDivisionError
              else Inr (intermediate_temps,
                        rnd (rnd (of_int INTERMEDIATE_STEP_SIZE / ramp_rate) * 60)))"

text \<open>The differences between consecutive setpoints of a plan.\<close>

fun deltas :: "real list \<Rightarrow> real list" where
  "deltas (a # b # xs) = (b - a) # deltas (b # xs)"
| "deltas xs = []"


subsection \<open>The instruments and the clock as scripts; the foreground world\<close>

text \<open>
  The temperature controller and the clock are external. The model scripts them: the
  \<open>n\<close>-th call of \<^verbatim>\<open>device.get_temp()\<close> returns, or raises, what \<open>temp_script\<close> says
  at \<open>n\<close>, and the \<open>n\<close>-th call of \<^verbatim>\<open>time.time()\<close> whose value the control flow uses
  returns \<open>clock_script\<close> at \<open>n\<close>. A Ctrl+C or an instrument failure in the foreground is
  delivered at a temperature read. \<^verbatim>\<open>device.set_idle()\<close> returns or raises what
  \<open>idle_result\<close> says, opening the temperature log and writing its header (lines
  543-546) returns or raises what \<open>log_open\<close> says, and \<open>sweeps_seen\<close> is the value of
  the global \<^verbatim>\<open>vna_sweep_count\<close>, which the sampling thread increments concurrently,
  when line 635 reads it.
\<close>

datatype 'a outcome = Returns 'a | Raises py_exn

record env =
  temp_script :: "nat \<Rightarrow> real outcome"
  clock_script :: "nat \<Rightarrow> real"
  idle_result :: "unit outcome"
  log_open :: "unit outcome"
  sweeps_seen :: nat

datatype direction = Cooling | Heating

text \<open>
  Of the console output the model keeps the messages that tell the branches of the
  control flow apart; the banners and the per-poll echo of the log row are left out.
\<close>

datatype msg =
    OvershootMode direction
  | CrossedTarget real
  | Approaching direction real real real
  | EnteredTolerance real
  | LeftTolerance real
  | Stabilized real real
  | StepComplete nat real
  | AllStepsCompleted
  | InterruptedByUser
  | IdleModeSet
  | SweepLogged nat real
  | SweepError

record metadata =
  temperature_targets :: "real list"
  controlled_ramp :: bool
  ramp_rate_C_per_min :: "real option"
  overshoot_enabled :: bool
  overshoot_amount_C :: "real option"
  total_sweeps :: nat
  completed :: bool

text \<open>
  Everything the program does to the outside, in the order it does it. A row of the
  temperature log keeps the columns \<^verbatim>\<open>Target_Temp_C\<close>, \<^verbatim>\<open>Sensor_Temp_1_C\<close> and
  \<^verbatim>\<open>Current_Step\<close>; its timestamps and the second sensor are not modelled. A write of
  the shared flag \<^verbatim>\<open>experiment_running\<close> is an event too, since the sampling thread
  reads it.
\<close>

datatype event =
    SetTemp real
  | SetIdleCalled
  | LogRow real real nat
  | Print msg
  | Sleep real
  | RunningFlag bool
  | SamplerStarted
  | SweepFile nat real "(nat \<times> real \<times> real \<times> real \<times> real) list"
  | MetadataWritten metadata

record world =
  temp_reads :: nat
  clock_reads :: nat
  tracker :: real
  experiment_running :: bool
  vna_sweep_count :: nat
  keyboard_interrupt_count :: nat
  events :: "event list"

type_synonym 'a run = "((py_exn + 'a) \<times> world) option"

definition get_temp :: "env \<Rightarrow> world \<Rightarrow> real outcome \<times> world" where
  "get_temp E w = (temp_script E (temp_reads w), w\<lparr>temp_reads := Suc (temp_reads w)\<rparr>)"

definition time_time :: "env \<Rightarrow> world \<Rightarrow> real \<times> world" where
  "time_time E w = (clock_script E (clock_reads w), w\<lparr>clock_reads := Suc (clock_reads w)\<rparr>)"

definition emit :: "event \<Rightarrow> world \<Rightarrow> world" where
  "emit e w = w\<lparr>events := events w @ [e]\<rparr>"

definition set_running :: "bool \<Rightarrow> world \<Rightarrow> world" where
  "set_running b w = emit (RunningFlag b) (w\<lparr>experiment_running := b\<rparr>)"

text \<open>One poll: read the sensor, update the shared snapshot, append a log row.\<close>

definition log_poll :: "real \<Rightarrow> real \<Rightarrow> nat \<Rightarrow> world \<Rightarrow> world" where
  "log_poll shown_target current_temp step_idx w =
     emit (LogRow shown_target current_temp step_idx) (w\<lparr>tracker := current_temp\<rparr>)"

subsection \<open>\<^verbatim>\<open>wait_for_stability\<close> (lines 230-354)\<close>

text \<open>
  The function is modelled as \<^verbatim>\<open>collect_data\<close> calls it, with the snapshot, the CSV
  writer, the start time and the step index all present.
\<close>

definition overshoot_setpoint :: "real \<Rightarrow> real \<Rightarrow> real \<Rightarrow> real \<times> direction" where
  "overshoot_setpoint current_temp target_temp overshoot_amount =
     (if current_temp > target_temp then (target_temp - overshoot_amount, Cooling)
      else (target_temp + overshoot_amount, Heating))"

definition has_crossed :: "direction \<Rightarrow> real \<Rightarrow> real \<Rightarrow> bool" where
  "has_crossed direction target_temp current_temp =
     (case direction of Cooling \<Rightarrow> current_temp \<le> target_temp
                      | Heating \<Rightarrow> current_temp \<ge> target_temp)"

text \<open>The loop of lines 271-310.\<close>

partial_function (option) overshoot_loop ::
  "env \<Rightarrow> real \<Rightarrow> real \<Rightarrow> direction \<Rightarrow> nat \<Rightarrow> world \<Rightarrow> unit run" where
  "overshoot_loop E target_temp overshoot_temp direction step_idx w =
     (case get_temp E w of
        (Raises e, w1) \<Rightarrow> Some (Inl e, w1)
      | (Returns current_temp, w1) \<Rightarrow>
          (if has_crossed direction target_temp current_temp
           then Some (Inr (),
                  emit (Sleep 2) (emit (SetTemp target_temp) (emit (Print (CrossedTarget current_temp))
                    (log_poll overshoot_temp current_temp step_idx w1))))
           else overshoot_loop E target_temp overshoot_temp direction step_idx
                  (emit (Sleep 2)
                    (emit (Print (Approaching direction current_temp target_temp
                                    \<bar>current_temp - target_temp\<bar>))
                      (log_poll overshoot_temp current_temp step_idx w1)))))"

text \<open>Lines 248-312, entered with the entry reading of line 246.\<close>

definition overshoot_phase ::
  "env \<Rightarrow> real \<Rightarrow> real \<Rightarrow> real \<Rightarrow> nat \<Rightarrow> world \<Rightarrow> unit run" where
  "overshoot_phase E target_temp overshoot_amount current_temp step_idx w =
     (case overshoot_setpoint current_temp target_temp overshoot_amount of
        (overshoot_temp, direction) \<Rightarrow>
          (case overshoot_loop E target_temp overshoot_temp direction step_idx
                  (emit (SetTemp overshoot_temp) (emit (Print (OvershootMode direction)) w)) of
             None \<Rightarrow> None
           | Some (Inl e, w1) \<Rightarrow> Some (Inl e, w1)
           | Some (Inr u, w1) \<Rightarrow> Some (Inr (), emit (Sleep 1) w1)))"

text \<open>The loop of lines 319-354; \<open>stable_start\<close> is \<open>None\<close> while no window is open.\<close>

partial_function (option) stability_loop ::
  "env \<Rightarrow> real \<Rightarrow> nat \<Rightarrow> real option \<Rightarrow> world \<Rightarrow> bool run" where
  "stability_loop E target_temp step_idx stable_start w =
     (case get_temp E w of
        (Raises e, w1) \<Rightarrow> Some (Inl e, w1)
      | (Returns current_temp, w1) \<Rightarrow>
          (if \<bar>current_temp - target_temp\<bar> \<le> TEMP_TOLERANCE
           then (case stable_start of
                   None \<Rightarrow>
                     (case time_time E (log_poll target_temp current_temp step_idx w1) of
                        (t, w2) \<Rightarrow>
                          stability_loop E target_temp step_idx (Some t)
                            (emit (Sleep 2) (emit (Print (EnteredTolerance current_temp)) w2)))
                 | Some started \<Rightarrow>
                     (case time_time E (log_poll target_temp current_temp step_idx w1) of
                        (t, w2) \<Rightarrow>
                          (if t - started \<ge> STABILITY_DURATION
                           then Some (Inr True,
                                  emit (Print (Stabilized current_temp (t - started))) w2)
                           else stability_loop E target_temp step_idx (Some started)
                                  (emit (Sleep 2) w2))))
           else stability_loop E target_temp step_idx None
                  (emit (Sleep 2)
                    (if stable_start \<noteq> None
                     then emit (Print (LeftTolerance current_temp))
                            (log_poll target_temp current_temp step_idx w1)
                     else log_poll target_temp current_temp step_idx w1))))"

definition wait_for_stability ::
  "env \<Rightarrow> real \<Rightarrow> bool \<Rightarrow> real \<Rightarrow> nat \<Rightarrow> world \<Rightarrow> bool run" where
  "wait_for_stability E target_temp use_overshoot overshoot_amount step_idx w =
     (case get_temp E w of
        (Raises e, w1) \<Rightarrow> Some (Inl e, w1)
      | (Returns current_temp, w1) \<Rightarrow>
          (case (if use_overshoot
                 then overshoot_phase E target_temp overshoot_amount current_temp step_idx w1
                 else Some (Inr (), w1)) of
             None \<Rightarrow> None
           | Some (Inl e, w2) \<Rightarrow> Some (Inl e, w2)
           | Some (Inr u, w2) \<Rightarrow> stability_loop E target_temp step_idx None w2))"

subsection \<open>\<^verbatim>\<open>ramp_to_temperature\<close> (lines 357-442)\<close>

text \<open>The loop of lines 379-404 (fast mode).\<close>

partial_function (option) fast_ramp_loop ::
  "env \<Rightarrow> real \<Rightarrow> nat \<Rightarrow> world \<Rightarrow> unit run" where
  "fast_ramp_loop E target_temp step_idx w =
     (case get_temp E w of
        (Raises e, w1) \<Rightarrow> Some (Inl e, w1)
      | (Returns current_temp, w1) \<Rightarrow>
          (if \<bar>current_temp - target_temp\<bar> \<le> TEMP_TOLERANCE * 2
           then Some (Inr (), log_poll target_temp current_temp step_idx w1)
           else fast_ramp_loop E target_temp step_idx
                  (emit (Sleep SAMPLING_INTERVAL_SECONDS)
                    (log_poll target_temp current_temp step_idx w1))))"

text \<open>The loop of lines 421-442: dwell at one intermediate setpoint.\<close>

partial_function (option) dwell_loop ::
  "env \<Rightarrow> real \<Rightarrow> nat \<Rightarrow> real \<Rightarrow> real \<Rightarrow> world \<Rightarrow> unit run" where
  "dwell_loop E intermediate_temp step_idx step_start time_per_step w =
     (case time_time E w of
        (t, w1) \<Rightarrow>
          (if t - step_start < time_per_step
           then (case get_temp E w1 of
                   (Raises e, w2) \<Rightarrow> Some (Inl e, w2)
                 | (Returns current_temp, w2) \<Rightarrow>
                     dwell_loop E intermediate_temp step_idx step_start time_per_step
                       (emit (Sleep SAMPLING_INTERVAL_SECONDS)
                         (log_poll intermediate_temp current_temp step_idx w2)))
           else Some (Inr (), w1)))"

text \<open>The \<^verbatim>\<open>for\<close> loop of lines 414-442.\<close>

fun ramp_steps :: "env \<Rightarrow> nat \<Rightarrow> real \<Rightarrow> real list \<Rightarrow> world \<Rightarrow> unit run" where
  "ramp_steps E step_idx time_per_step [] w = Some (Inr (), w)"
| "ramp_steps E step_idx time_per_step (intermediate_temp # rest) w =
     (case time_time E (emit (SetTemp intermediate_temp) w) of
        (step_start, w1) \<Rightarrow>
          (case dwell_loop E intermediate_temp step_idx step_start time_per_step w1 of
             None \<Rightarrow> None
           | Some (Inl e, w2) \<Rightarrow> Some (Inl e, w2)
           | Some (Inr u, w2) \<Rightarrow> ramp_steps E step_idx time_per_step rest w2))"

definition ramp_to_temperature ::
  "env \<Rightarrow> real \<Rightarrow> real option \<Rightarrow> nat \<Rightarrow> world \<Rightarrow> unit run" where
  "ramp_to_temperature E target_temp ramp_rate step_idx w =
     (case get_temp E w of
        (Raises e, w1) \<Rightarrow> Some (Inl e, w1)
      | (Returns current_temp, w1) \<Rightarrow>
          (case ramp_rate of
             None \<Rightarrow> fast_ramp_loop E target_temp step_idx (emit (SetTemp target_temp) w1)
           | Some rate \<Rightarrow>
               (case calculate_intermediate_temps current_temp target_temp rate of
                  Inl e \<Rightarrow> Some (Inl e, w1)
                | Inr (intermediate_temps, time_per_step) \<Rightarrow>
                    ramp_steps E step_idx time_per_step intermediate_temps w1)))"

subsection \<open>\<^verbatim>\<open>collect_data\<close> (lines 508-646)\<close>


text \<open>The metadata dictionary of lines 521-530 with the entries of lines 634-636.\<close>

definition final_metadata ::
  "env \<Rightarrow> real list \<Rightarrow> real option \<Rightarrow> bool \<Rightarrow> real \<Rightarrow> bool \<Rightarrow> metadata" where
  "final_metadata E temps ramp_rate use_overshoot overshoot_amount experiment_completed =
     \<lparr>temperature_targets = temps,
      controlled_ramp = (ramp_rate \<noteq> None \<and> ramp_rate \<noteq> Some 0),
      ramp_rate_C_per_min = (if ramp_rate = Some 0 then None else ramp_rate),
      overshoot_enabled = use_overshoot,
      overshoot_amount_C = (if use_overshoot then Some overshoot_amount else None),
      total_sweeps = sweeps_seen E,
      completed = experiment_completed\<rparr>"

text \<open>
  The \<^verbatim>\<open>finally\<close> block, lines 621-644. The bare \<^verbatim>\<open>except\<close> of line 628 swallows
  whatever \<^verbatim>\<open>set_idle\<close> raises.
\<close>

definition finalize ::
  "env \<Rightarrow> real list \<Rightarrow> real option \<Rightarrow> bool \<Rightarrow> real \<Rightarrow> bool \<Rightarrow> world \<Rightarrow> world" where
  "finalize E temps ramp_rate use_overshoot overshoot_amount experiment_completed w =
     (let w1 = set_running False w;
          w2 = emit SetIdleCalled w1;
          w3 = (case idle_result E of
                  Returns u \<Rightarrow> emit (Print IdleModeSet) w2
                | Raises e \<Rightarrow> w2);
          w4 = emit (Sleep 2) w3
      in emit (MetadataWritten
                 (final_metadata E temps ramp_rate use_overshoot overshoot_amount
                    experiment_completed)) w4)"





subsection \<open>The sampling thread: \<^verbatim>\<open>vna_sweep_thread\<close> (lines 445-505)\<close>

text \<open>
  The thread runs beside the foreground, so what it reads from shared variables and from
  the analyzer in one cycle is an input of that cycle: the flag as the \<^verbatim>\<open>while\<close> test
  reads it, the temperature snapshot, the result of the \<^verbatim>\<open>try\<close> body's instrument and
  file operations (the values returned, or an \<^verbatim>\<open>Exception\<close>), and the flag as the
  handler of line 503 reads it. A \<^verbatim>\<open>KeyboardInterrupt\<close> is only ever delivered to the
  main thread.
\<close>

datatype acquired = Sweep "real list" | AcquisitionError

record cycle_obs =
  running_at_top :: bool
  snapshot :: real
  acquisition :: acquired
  running_in_handler :: bool

text \<open>
  The thread's view of the state: the shared counter, its local \<^verbatim>\<open>sweep_num\<close> (0
  before the first assignment) and what it has written and printed.
\<close>

record sampler =
  sweep_count :: nat
  sweep_num :: nat
  out :: "event list"

definition sweep_rows ::
  "real \<Rightarrow> real list \<Rightarrow> (nat \<times> real \<times> real \<times> real \<times> real) list" where
  "sweep_rows current_temp temp_values =
     (let points_per_var = length temp_values div 3;
          freq = take points_per_var temp_values;
          re = take points_per_var (drop points_per_var temp_values);
          im = take points_per_var (drop (2 * points_per_var) temp_values)
      in map (\<lambda>i. (i + 1, current_temp, freq ! i, re ! i, im ! i)) [0..<points_per_var])"

text \<open>One pass through the body of the \<^verbatim>\<open>while\<close> loop, lines 452-505.\<close>

definition vna_cycle :: "cycle_obs \<Rightarrow> sampler \<Rightarrow> sampler" where
  "vna_cycle c s =
     (let current_temp = snapshot c;
          s1 = s\<lparr>sweep_count := sweep_count s + 1\<rparr>;
          s2 = s1\<lparr>sweep_num := sweep_count s1\<rparr>
      in case acquisition c of
           Sweep temp_values \<Rightarrow>
             s2\<lparr>out := out s2 @
               [SweepFile (sweep_num s2) current_temp (sweep_rows current_temp temp_values),
                Print (SweepLogged (sweep_num s2) current_temp),
                Sleep VNA_SWEEP_INTERVAL]\<rparr>
         | AcquisitionError \<Rightarrow>
             (if running_in_handler c
              then s2\<lparr>out := out s2 @ [Print SweepError, Sleep 5]\<rparr>
              else s2\<lparr>out := out s2 @ [Sleep 5]\<rparr>))"

text \<open>
  The counter \<^verbatim>\<open>vna_sweep_count\<close> and the flag \<^verbatim>\<open>experiment_running\<close> are globals,
  shared by every sampling thread that is alive. Each experiment starts a daemon thread
  that nobody joins (line 539): the \<^verbatim>\<open>finally\<close> block only sleeps 2 seconds (line 631)
  while the thread sleeps 60 between sweeps (line 500). The thread of the previous
  experiment can therefore still be asleep when the next \<^verbatim>\<open>collect_data\<close> resets the
  counter and sets the flag again (lines 513-514); on waking it finds the flag set and
  goes on. The state below is the shared counter with the locals (\<^verbatim>\<open>sweep_num\<close>) and
  the output of two threads, the one of the earlier experiment and the one of the current
  experiment. A step is the reset of line 513 or one pass of a thread through its loop,
  in the order in which the threads take the lock of line 457; a thread whose
  \<^verbatim>\<open>while\<close> test finds the flag cleared does nothing more.
\<close>

record sampling =
  shared_sweep_count :: nat
  earlier_thread :: "nat \<times> event list"
  current_thread :: "nat \<times> event list"

datatype schedule_step = CounterReset | EarlierCycle cycle_obs | CurrentCycle cycle_obs

definition thread_pass ::
  "cycle_obs \<Rightarrow> nat \<Rightarrow> nat \<times> event list \<Rightarrow> nat \<times> (nat \<times> event list)" where
  "thread_pass c count locals =
     (if running_at_top c
      then (let s = vna_cycle c \<lparr>sweep_count = count, sweep_num = fst locals, out = snd locals\<rparr>
            in (sweep_count s, (sweep_num s, out s)))
      else (count, locals))"

fun sampling_step :: "schedule_step \<Rightarrow> sampling \<Rightarrow> sampling" where
  "sampling_step CounterReset S = S\<lparr>shared_sweep_count := 0\<rparr>"
| "sampling_step (EarlierCycle c) S =
     (case thread_pass c (shared_sweep_count S) (earlier_thread S) of
        (count, locals) \<Rightarrow> S\<lparr>shared_sweep_count := count, earlier_thread := locals\<rparr>)"
| "sampling_step (CurrentCycle c) S =
     (case thread_pass c (shared_sweep_count S) (current_thread S) of
        (count, locals) \<Rightarrow> S\<lparr>shared_sweep_count := count, current_thread := locals\<rparr>)"

fun sampling_run :: "schedule_step list \<Rightarrow> sampling \<Rightarrow> sampling" where
  "sampling_run [] S = S"
| "sampling_run (x # xs) S = sampling_run xs (sampling_step x S)"

subsection \<open>Reading the event list\<close>

definition setpoints :: "event list \<Rightarrow> real list" where
  "setpoints es = concat (map (\<lambda>e. case e of SetTemp x \<Rightarrow> [x] | _ \<Rightarrow> []) es)"



definition sweep_file_numbers :: "event list \<Rightarrow> nat list" where
  "sweep_file_numbers es =
     concat (map (\<lambda>e. case e of SweepFile n t rows \<Rightarrow> [n] | _ \<Rightarrow> []) es)"




text \<open>Reading number \<open>i\<close> of the script is a temperature within tolerance of the target.\<close>

definition in_band :: "env \<Rightarrow> real \<Rightarrow> nat \<Rightarrow> bool" where
  "in_band E target_temp i =
     (case temp_script E i of
        Returns current_temp \<Rightarrow> \<bar>current_temp - target_temp\<bar> \<le> TEMP_TOLERANCE
      | Raises e \<Rightarrow> False)"

text \<open>
  What a successful return of the stabilization loop, entered at world \<open>w\<close> with the loop
  variable \<open>stable_start\<close> and left at world \<open>w'\<close>, says about the script. The last
  reading \<open>k\<close> and the last clock value \<open>ck\<close> belong to the returning pass. Either the
  window that was open on entry never closed: every reading since entry was in band, each
  read the clock once, and the duration checked is measured from the entry value of
  \<open>stable_start\<close>. Or the window was opened by a later reading \<open>j\<close>, the first of the
  loop or one that follows an out-of-band reading: every reading from \<open>j\<close> to \<open>k\<close> was in
  band, each read the clock once, and the duration checked is measured from the clock
  value \<open>cj\<close> that reading \<open>j\<close> took.
\<close>

definition closes_window :: "env \<Rightarrow> real \<Rightarrow> real option \<Rightarrow> world \<Rightarrow> world \<Rightarrow> bool" where
  "closes_window E target_temp stable_start w w' \<longleftrightarrow>
     (\<exists>k ck T. temp_reads w' = Suc k \<and> clock_reads w' = Suc ck \<and>
        temp_script E k = Returns T \<and> events w' \<noteq> [] \<and>
        ((\<exists>s. stable_start = Some s \<and> temp_reads w \<le> k \<and>
              (\<forall>i. temp_reads w \<le> i \<and> i \<le> k \<longrightarrow> in_band E target_temp i) \<and>
              ck = clock_reads w + (k - temp_reads w) \<and>
              STABILITY_DURATION \<le> clock_script E ck - s \<and>
              last (events w') = Print (Stabilized T (clock_script E ck - s)))
         \<or> (\<exists>j cj. temp_reads w \<le> j \<and> j < k \<and> clock_reads w \<le> cj \<and> ck = cj + (k - j) \<and>
              (\<forall>i. j \<le> i \<and> i \<le> k \<longrightarrow> in_band E target_temp i) \<and>
              (if j = temp_reads w then stable_start = None
               else \<not> in_band E target_temp (j - 1)) \<and>
              STABILITY_DURATION \<le> clock_script E ck - clock_script E cj \<and>
              last (events w') =
                Print (Stabilized T (clock_script E ck - clock_script E cj)))))"

subsection \<open>Scripted instruments for concrete runs\<close>

text \<open>The scripted calls in order; once they are used up the device fails.\<close>

definition scripted :: "real outcome list \<Rightarrow> nat \<Rightarrow> real outcome" where
  "scripted xs n = (if n < length xs then xs ! n else Raises DeviceError)"

definition readings :: "real list \<Rightarrow> nat \<Rightarrow> real outcome" where
  "readings xs = scripted (map Returns xs)"

text \<open>The clock values in order; after them the clock stands still.\<close>

definition clock_values :: "real list \<Rightarrow> nat \<Rightarrow> real" where
  "clock_values ts n = (if n < length ts then ts ! n else last ts)"

definition script_env :: "(nat \<Rightarrow> real outcome) \<Rightarrow> (nat \<Rightarrow> real) \<Rightarrow> unit outcome \<Rightarrow> env" where
  "script_env temps clock idle =
     \<lparr>temp_script = temps, clock_script = clock, idle_result = idle,
      log_open = Returns (), sweeps_seen = 0\<rparr>"

text \<open>A rounding for concrete runs: to the nearest multiple of 1/1024.\<close>

definition round_to_1024ths :: "real \<Rightarrow> real" where
  "round_to_1024ths x = of_int \<lfloor>x * 1024 + 1 / 2\<rfloor> / 1024"

definition fresh_world :: world where
  "fresh_world =
     \<lparr>temp_reads = 0, clock_reads = 0, tracker = 0, experiment_running = True,
      vna_sweep_count = 0, keyboard_interrupt_count = 0, events = []\<rparr>"

definition fresh_sampler :: sampler where
  "fresh_sampler = \<lparr>sweep_count = 0, sweep_num = 0, out = []\<rparr>"

text \<open>A cycle that finds the flag set and acquires one three-value sweep at 20 degrees.\<close>

definition good_cycle :: cycle_obs where
  "good_cycle =
     \<lparr>running_at_top = True, snapshot = 20, acquisition = Sweep [1, 2, 3],
      running_in_handler = True\<rparr>"

definition no_sampling :: sampling where
  "no_sampling = \<lparr>shared_sweep_count = 0, earlier_thread = (0, []), current_thread = (0, [])\<rparr>"

section \<open>Properties of the ramp planner\<close>

lemma short_distance_plan: "\<bar>target - current\<bar> < 1 \<Longrightarrow> calculate_intermediate_temps current target rate = Inr ([target], 0)"
proof -
  assume "\<bar>target - current\<bar> < 1"
  then have "\<lfloor>\<bar>target - current\<bar>\<rfloor> = 0" by (simp add: floor_eq_iff)
  then show ?thesis
  by (simp add: calculate_intermediate_temps_def py_int_def INTERMEDIATE_STEP_SIZE_def Let_def)
qed

lemma plan_shape:
  assumes rate: "rate \<noteq> 0" and far: "1 \<le> \<bar>target - current\<bar>"
  shows "calculate_intermediate_temps current target rate =
     (let d = (if target - current > 0 then 1 else - 1 :: int);
          gen = map (\<lambda>i. current + of_int (d * i)) [1..\<lfloor>\<bar>target - current\<bar>\<rfloor>]
      in Inr (if \<bar>last gen - target\<bar> > 1 / 10 then gen @ [target] else gen, 1 / rate * 60))"
proof -
  have "1 \<le> \<lfloor>\<bar>target - current\<bar>\<rfloor>" using far by (simp add: le_floor_iff)
  then have "\<lfloor>\<bar>target - current\<bar>\<rfloor> \<noteq> 0" by linarith
  then show ?thesis using rate
    by (simp add: calculate_intermediate_temps_def py_int_def INTERMEDIATE_STEP_SIZE_def Let_def)
qed

lemma deltas_subset: "set (deltas ts) \<subseteq> set (deltas (c # ts))"
  by (cases ts) auto

lemma butlast_deltas_subset: "set (butlast (deltas ts)) \<subseteq> set (butlast (deltas (c # ts)))"
  by (cases ts) (auto simp: butlast.simps)

text \<open>
  Claim C2 does not hold as stated: the plan need not end at exactly the target. With
  \<open>current = 20\<close> and \<open>target = 24.0625\<close> the four generated setpoints end at 24, which
  is within the 0.1 guard of line 220, so the target is not appended.
\<close>

theorem plan_need_not_end_at_target:
  "calculate_intermediate_temps 20 (385 / 16) 2 = Inr ([21, 22, 23, 24], 30) \<and>
   last (fst (projr (calculate_intermediate_temps 20 (385 / 16) 2))) \<noteq> 385 / 16"
  by (simp add: calculate_intermediate_temps_def py_int_def INTERMEDIATE_STEP_SIZE_def
      Let_def upto.simps)

text \<open>
  The planner in rounded arithmetic. The only thing asked of the rounding is that, on
  magnitudes up to \<open>4 * M + 1\<close>, it moves a result by at most \<open>\<eta>\<close>. Exact arithmetic
  has \<open>\<eta> = 0\<close>; IEEE double precision, rounding to nearest, has \<open>\<eta> = 2\<^sup>-\<^sup>3\<^sup>1\<close> for
  \<open>M = 2\<^sup>2\<^sup>0\<close>, half the spacing of the doubles between \<open>2\<^sup>2\<^sup>2\<close> and \<open>2\<^sup>2\<^sup>3\<close>.
\<close>

lemma rounded_exact:
  "calculate_intermediate_temps_rounded (\<lambda>x. x) current target rate =
   calculate_intermediate_temps current target rate"
  by (simp add: calculate_intermediate_temps_rounded_def calculate_intermediate_temps_def Let_def)

lemma length_deltas: "length (deltas xs) = length xs - 1"
  by (induction xs rule: deltas.induct) auto

lemma deltas_nth: "Suc i < length xs \<Longrightarrow> deltas xs ! i = xs ! Suc i - xs ! i"
proof (induction xs arbitrary: i rule: deltas.induct)
  case (1 a b xs)
  then show ?case by (cases i) auto
qed auto

lemma in_deltas:
  assumes "\<delta> \<in> set (deltas xs)"
  obtains i where "Suc i < length xs" "\<delta> = xs ! Suc i - xs ! i"
proof -
  from assms obtain i where i: "i < length (deltas xs)" "\<delta> = deltas xs ! i"
    by (auto simp: in_set_conv_nth)
  then have "Suc i < length xs" by (simp add: length_deltas)
  with i deltas_nth[of i xs] that show ?thesis by simp
qed

lemma in_butlast_deltas:
  assumes "\<delta> \<in> set (butlast (deltas xs))"
  obtains i where "Suc (Suc i) < length xs" "\<delta> = xs ! Suc i - xs ! i"
proof -
  from assms obtain i where i: "i < length (butlast (deltas xs))" "\<delta> = butlast (deltas xs) ! i"
    by (auto simp: in_set_conv_nth)
  then have l: "Suc (Suc i) < length xs" by (simp add: length_deltas)
  have "\<delta> = deltas xs ! i" using i by (simp add: nth_butlast)
  with l deltas_nth[of i xs] that show ?thesis by simp
qed

lemma py_int_bounds:
  assumes "- 1 < q"
  shows "0 \<le> py_int q" and "py_int q = 0 \<Longrightarrow> q < 1"
    and "py_int q \<noteq> 0 \<Longrightarrow> 1 \<le> py_int q \<and> of_int (py_int q) \<le> q \<and> q < of_int (py_int q) + 1"
proof -
  show "0 \<le> py_int q"
  proof (cases "0 \<le> q")
    case True then show ?thesis by (simp add: py_int_def)
  next
    case False
    then have "\<lceil>q\<rceil> = 0" using assms by (simp add: ceiling_eq_iff)
    then show ?thesis using False by (simp add: py_int_def)
  qed
  show "py_int q = 0 \<Longrightarrow> q < 1"
    by (cases "0 \<le> q") (auto simp: py_int_def floor_eq_iff)
  show "py_int q \<noteq> 0 \<Longrightarrow> 1 \<le> py_int q \<and> of_int (py_int q) \<le> q \<and> q < of_int (py_int q) + 1"
  proof -
    assume nz: "py_int q \<noteq> 0"
    have pos: "0 \<le> q"
    proof (rule ccontr)
      assume "\<not> 0 \<le> q"
      then have "\<lceil>q\<rceil> = 0" "\<not> 0 \<le> q" using assms by (simp_all add: ceiling_eq_iff)
      then have "py_int q = 0" by (simp add: py_int_def)
      with nz show False by simp
    qed
    then have e: "py_int q = \<lfloor>q\<rfloor>" by (simp add: py_int_def)
    have "0 \<le> \<lfloor>q\<rfloor>" using pos by simp
    with nz e have "1 \<le> \<lfloor>q\<rfloor>" by linarith
    moreover have "of_int \<lfloor>q\<rfloor> \<le> q" "q < of_int \<lfloor>q\<rfloor> + 1" by linarith+
    ultimately show ?thesis using e by simp
  qed
qed

lemma near_unit_step:
  fixes \<delta> s e :: real
  assumes "\<bar>\<delta> - s\<bar> \<le> e" and "e < 1" and "s = 1 \<or> s = - 1"
  shows "sgn \<delta> = s" and "\<bar>\<bar>\<delta>\<bar> - 1\<bar> \<le> e"
proof -
  from assms(3) show "sgn \<delta> = s"
  proof
    assume "s = 1" with assms(1,2) have "0 < \<delta>" by linarith
    then show ?thesis using \<open>s = 1\<close> by simp
  next
    assume "s = - 1" with assms(1,2) have "\<delta> < 0" by linarith
    then show ?thesis using \<open>s = - 1\<close> by simp
  qed
  from assms show "\<bar>\<bar>\<delta>\<bar> - 1\<bar> \<le> e" by (auto simp: abs_if split: if_splits)
qed

lemma sgn_of_product:
  fixes x s :: real
  assumes "s = 1 \<or> s = - 1" and "0 < s * x"
  shows "sgn x = s"
  using assms by (auto simp: sgn_if)

lemma rounded_plan_structure:
  assumes rnd: "\<forall>x. \<bar>x\<bar> \<le> 4 * M + 1 \<longrightarrow> \<bar>rnd x - x\<bar> \<le> \<eta>"
    and eta: "\<eta> \<le> 1 / 100"
    and cM: "\<bar>current\<bar> \<le> M" and tM: "\<bar>target\<bar> \<le> M" and rate: "0 < rate"
  shows "\<exists>ts dwell n.
     calculate_intermediate_temps_rounded rnd current target rate = Inr (ts, dwell) \<and> ts \<noteq> [] \<and>
     real n \<le> \<bar>target - current\<bar> + 2 * \<eta> \<and> \<bar>target - current\<bar> - 2 * \<eta> < real n + 1 \<and>
     (\<forall>i<n. \<bar>ts ! i - (current + sgn (target - current) * real (Suc i))\<bar> \<le> 2 * \<eta>) \<and>
     (length ts = n \<and> \<bar>last ts - target\<bar> \<le> 1 / 10 + 2 * \<eta> \<or>
      length ts = Suc n \<and> last ts = target \<and>
        (n = 0 \<or> 1 / 10 - 2 * \<eta> < \<bar>ts ! (n - 1) - target\<bar>)) \<and>
     (\<forall>\<delta> \<in> set (deltas (current # ts)). sgn \<delta> = sgn (target - current)) \<and>
     (\<forall>\<delta> \<in> set (butlast (deltas (current # ts))). \<bar>\<bar>\<delta>\<bar> - 1\<bar> \<le> 4 * \<eta>)"
proof -
  have M0: "0 \<le> M" using cM by linarith
  have r: "\<bar>x\<bar> \<le> 4 * M + 1 \<Longrightarrow> \<bar>rnd x - x\<bar> \<le> \<eta>" for x using rnd by blast
  have eta0: "0 \<le> \<eta>" using r[of 0] M0 by simp
  define D where "D = target - current"
  define tc where "tc = rnd D"
  define q where "q = rnd \<bar>tc\<bar>"
  define m where "m = py_int q"
  define d :: int where "d = (if tc > 0 then 1 else - 1)"
  define G where "G = (\<lambda>i::int. rnd (current + rnd (of_int (d * i))))"
  have D2: "\<bar>D\<bar> \<le> 2 * M" using cM tM by (simp add: D_def)
  have tcD: "\<bar>tc - D\<bar> \<le> \<eta>" unfolding tc_def using D2 M0 by (intro r) simp
  have tcB: "\<bar>tc\<bar> \<le> 2 * M + \<eta>" using tcD D2 by linarith
  have qa: "\<bar>q - \<bar>tc\<bar>\<bar> \<le> \<eta>" unfolding q_def using tcB eta M0 by (intro r) simp
  have qD: "\<bar>q - \<bar>D\<bar>\<bar> \<le> 2 * \<eta>" using qa tcD by linarith
  have qm1: "- 1 < q" using qa eta by linarith
  note pb = py_int_bounds[OF qm1, folded m_def]
  have res0: "calculate_intermediate_temps_rounded rnd current target rate =
     (if m = 0 then Inr ([target], 0)
      else Inr (if \<bar>rnd (last (map G [1..m]) - target)\<bar> > rnd (1 / 10)
                then map G [1..m] @ [target] else map G [1..m],
                rnd (rnd (1 / rate) * 60)))"
    using rate
    by (simp add: calculate_intermediate_temps_rounded_def Let_def INTERMEDIATE_STEP_SIZE_def
        m_def q_def tc_def D_def G_def d_def)
  show ?thesis
  proof (cases "m = 0")
    case True
    have "q < 1" using pb(2) True by simp
    then have "\<bar>D\<bar> - 2 * \<eta> < 1" using qD by linarith
    then show ?thesis
      using res0 True eta0
      by (intro exI[of _ "[target]"] exI[of _ 0] exI[of _ "0::nat"]) (simp add: D_def)
  next
    case False
    from pb(3)[OF False] have m1: "1 \<le> m" and mq: "of_int m \<le> q" and qm: "q < of_int m + 1"
      by simp_all
    define n where "n = nat m"
    have nm: "real n = of_int m" "int n = m" using m1 by (simp_all add: n_def)
    have n1: "1 \<le> n" using m1 by (simp add: n_def)
    have nD: "real n \<le> \<bar>D\<bar> + 2 * \<eta>" using mq qD nm by linarith
    have Dn: "\<bar>D\<bar> - 2 * \<eta> < real n + 1" using qm qD nm by linarith
    have D1: "1 - 2 * \<eta> \<le> \<bar>D\<bar>" using nD n1 by linarith
    have Dnz: "D \<noteq> 0"
    proof
      assume "D = 0"
      then have "\<bar>D\<bar> = 0" by simp
      with D1 eta show False by linarith
    qed
    have tc1: "1 - \<eta> \<le> \<bar>tc\<bar>" using mq m1 qa by linarith
    have dsgn: "real_of_int d = sgn D"
    proof (cases "tc > 0")
      case True
      then have "D > 0" using tc1 tcD eta by linarith
      then show ?thesis using True by (simp add: d_def)
    next
      case False
      then have "D < 0" using tc1 tcD eta by linarith
      then show ?thesis using False by (simp add: d_def)
    qed
    have dabs: "\<bar>real_of_int d\<bar> = 1" by (simp add: d_def)
    have dD: "real_of_int d * D = \<bar>D\<bar>" using dsgn by (simp add: sgn_if abs_if split: if_splits)
    have Gclose: "\<bar>G i - (current + of_int d * of_int i)\<bar> \<le> 2 * \<eta>" if "1 \<le> i" "i \<le> m" for i
    proof -
      have ib: "\<bar>real_of_int (d * i)\<bar> \<le> 2 * M + 2 * \<eta>"
      proof -
        have "\<bar>real_of_int (d * i)\<bar> = of_int i" using that dabs by (simp add: abs_mult)
        also have "\<dots> \<le> of_int m" using that by simp
        also have "\<dots> \<le> 2 * M + 2 * \<eta>" using nD nm D2 by linarith
        finally show ?thesis .
      qed
      have a: "\<bar>rnd (of_int (d * i)) - of_int (d * i)\<bar> \<le> \<eta>"
        using ib eta M0 by (intro r) linarith
      have "\<bar>current + rnd (of_int (d * i))\<bar> \<le> 3 * M + 3 * \<eta>" using a ib cM by linarith
      then have b: "\<bar>rnd (current + rnd (of_int (d * i))) - (current + rnd (of_int (d * i)))\<bar> \<le> \<eta>"
        using eta M0 by (intro r) linarith
      show ?thesis using a b by (simp add: G_def)
    qed
    define gen where "gen = map G [1..m]"
    have lgen: "length gen = n" using m1 by (simp add: gen_def n_def)
    have gen_nth: "gen ! i = G (int (Suc i))" if "i < n" for i
    proof -
      have "[1..m] ! i = 1 + int i" using that nm by (intro nth_upto) linarith
      moreover have "i < length [1..m]" using that nm by simp
      ultimately show ?thesis by (simp add: gen_def)
    qed
    have gen_close: "\<bar>gen ! i - (current + sgn D * real (Suc i))\<bar> \<le> 2 * \<eta>" if "i < n" for i
    proof -
      have "1 \<le> int (Suc i)" "int (Suc i) \<le> m" using that nm by linarith+
      from Gclose[OF this] show ?thesis using gen_nth[OF that] dsgn by simp
    qed
    have gen_ne: "gen \<noteq> []" using lgen n1 by auto
    have last_gen: "last gen = gen ! (n - 1)" using gen_ne lgen by (simp add: last_conv_nth)
    have last_close: "\<bar>last gen - (current + sgn D * real n)\<bar> \<le> 2 * \<eta>"
      using gen_close[of "n - 1"] n1 last_gen by simp
    have dl: "sgn D * (target - last gen) \<ge> - 4 * \<eta>"
      and lB: "\<bar>last gen - target\<bar> \<le> 1 + 4 * \<eta>"
    proof -
      have e: "\<bar>(target - last gen) - (D - sgn D * real n)\<bar> \<le> 2 * \<eta>"
        using last_close by (simp add: D_def abs_minus_commute algebra_simps)
      have s1: "sgn D * sgn D = 1" using Dnz by (simp add: sgn_if)
      have s2: "sgn D * D = \<bar>D\<bar>" using dD dsgn by simp
      have sa: "\<bar>sgn D\<bar> = 1" using dabs dsgn by simp
      have "sgn D * (D - sgn D * real n) = \<bar>D\<bar> - real n"
        using s1 s2 by (simp add: algebra_simps)
      moreover have "\<bar>sgn D * ((target - last gen) - (D - sgn D * real n))\<bar> \<le> 2 * \<eta>"
        using e sa by (simp add: abs_mult)
      ultimately have k: "\<bar>sgn D * (target - last gen) - (\<bar>D\<bar> - real n)\<bar> \<le> 2 * \<eta>"
        by (simp add: algebra_simps)
      show "sgn D * (target - last gen) \<ge> - 4 * \<eta>" using k nD by linarith
      have "\<bar>sgn D * (target - last gen)\<bar> \<le> 1 + 4 * \<eta>" using k nD Dn by linarith
      then show "\<bar>last gen - target\<bar> \<le> 1 + 4 * \<eta>"
        using sa by (simp add: abs_mult abs_minus_commute)
    qed
    have lB2: "\<bar>last gen - target\<bar> \<le> 4 * M + 4 * \<eta>"
    proof -
      have "\<bar>sgn D * real n\<bar> = real n" using dabs dsgn by (simp add: abs_mult)
      then show ?thesis using last_close nD D2 cM tM by linarith
    qed
    have e1: "\<bar>rnd (last gen - target) - (last gen - target)\<bar> \<le> \<eta>"
      using lB2 eta by (intro r) linarith
    have e2: "\<bar>rnd (1 / 10) - 1 / 10\<bar> \<le> \<eta>" using M0 by (intro r) simp
    define ts where "ts = (if \<bar>rnd (last gen - target)\<bar> > rnd (1 / 10) then gen @ [target] else gen)"
    have res: "calculate_intermediate_temps_rounded rnd current target rate =
         Inr (ts, rnd (rnd (1 / rate) * 60))"
      using res0 False by (simp add: ts_def gen_def)
    have ts_ne: "ts \<noteq> []" using gen_ne by (simp add: ts_def)
    have ts_nth: "ts ! i = gen ! i" if "i < n" for i
      using that lgen by (simp add: ts_def nth_append)
    have ws: "\<bar>ts ! i - (current + sgn D * real (Suc i))\<bar> \<le> 2 * \<eta>" if "i < n" for i
      using gen_close[OF that] ts_nth[OF that] by simp
    have wholestep: "\<forall>i<n. \<bar>ts ! i - (current + sgn D * real (Suc i))\<bar> \<le> 2 * \<eta>"
      using ws by blast
    have ending: "length ts = n \<and> \<bar>last ts - target\<bar> \<le> 1 / 10 + 2 * \<eta> \<or>
      length ts = Suc n \<and> last ts = target \<and>
        (n = 0 \<or> 1 / 10 - 2 * \<eta> < \<bar>ts ! (n - 1) - target\<bar>)"
    proof (cases "\<bar>rnd (last gen - target)\<bar> > rnd (1 / 10)")
      case True
      then have "ts = gen @ [target]" by (simp add: ts_def)
      moreover have "1 / 10 - 2 * \<eta> < \<bar>gen ! (n - 1) - target\<bar>"
        using True e1 e2 last_gen by linarith
      ultimately show ?thesis using lgen n1 by (simp add: nth_append)
    next
      case False
      then have "ts = gen" by (simp add: ts_def)
      moreover have "\<bar>last gen - target\<bar> \<le> 1 / 10 + 2 * \<eta>" using False e1 e2 by linarith
      ultimately show ?thesis using lgen by simp
    qed
    have step_unit: "\<bar>((current # ts) ! Suc i - (current # ts) ! i) - sgn D\<bar> \<le> 4 * \<eta>"
      if "i < n" for i
    proof (cases i)
      case 0
      have "\<bar>ts ! 0 - (current + sgn D * real (Suc 0))\<bar> \<le> 2 * \<eta>"
        using n1 by (intro ws) simp
      then show ?thesis using 0 eta0 by simp
    next
      case (Suc j)
      have a: "\<bar>ts ! Suc j - (current + sgn D * real (Suc (Suc j)))\<bar> \<le> 2 * \<eta>"
        using that Suc by (intro ws) simp
      have b: "\<bar>ts ! j - (current + sgn D * real (Suc j))\<bar> \<le> 2 * \<eta>"
        using that Suc by (intro ws) simp
      have "(current + sgn D * real (Suc (Suc j))) - (current + sgn D * real (Suc j)) = sgn D"
        by (simp add: algebra_simps)
      moreover have "(current # ts) ! Suc i - (current # ts) ! i = ts ! Suc j - ts ! j"
        using Suc by simp
      ultimately show ?thesis using a b by linarith
    qed
    have sD: "sgn D = 1 \<or> sgn D = - 1" using Dnz by (auto simp: sgn_if)
    have step_sgn: "sgn ((current # ts) ! Suc i - (current # ts) ! i) = sgn D"
      if "Suc i < length (current # ts)" for i
    proof (cases "i < n")
      case True
      have "4 * \<eta> < 1" using eta by simp
      from near_unit_step(1)[OF step_unit[OF True] this sD] show ?thesis .
    next
      case False
      with that ending lgen have app: "ts = gen @ [target]" and i: "i = n"
        by (auto simp: ts_def split: if_splits)
      then have big: "1 / 10 - 2 * \<eta> < \<bar>last gen - target\<bar>"
        using e1 e2 by (auto simp: ts_def split: if_splits) 
      have "(current # ts) ! Suc i - (current # ts) ! i = target - last gen"
        using app i lgen n1 last_gen by (cases n) (auto simp: nth_append)
      moreover have "sgn (target - last gen) = sgn D"
      proof (rule sgn_of_product[OF sD])
        have "\<bar>sgn D * (target - last gen)\<bar> = \<bar>last gen - target\<bar>"
          using sD by (auto simp: abs_mult abs_minus_commute)
        with dl big eta show "0 < sgn D * (target - last gen)" by linarith
      qed
      ultimately show ?thesis by simp
    qed
    have mono: "\<forall>\<delta> \<in> set (deltas (current # ts)). sgn \<delta> = sgn D"
    proof
      fix \<delta> assume "\<delta> \<in> set (deltas (current # ts))"
      then obtain i where "Suc i < length (current # ts)"
        "\<delta> = (current # ts) ! Suc i - (current # ts) ! i" by (rule in_deltas)
      with step_sgn show "sgn \<delta> = sgn D" by simp
    qed
    have unit: "\<forall>\<delta> \<in> set (butlast (deltas (current # ts))). \<bar>\<bar>\<delta>\<bar> - 1\<bar> \<le> 4 * \<eta>"
    proof
      fix \<delta> assume "\<delta> \<in> set (butlast (deltas (current # ts)))"
      then obtain i where i: "Suc (Suc i) < length (current # ts)"
        "\<delta> = (current # ts) ! Suc i - (current # ts) ! i" by (rule in_butlast_deltas)
      have "length ts \<le> Suc n" using ending by auto
      with i(1) have "i < n" by simp
      have "4 * \<eta> < 1" using eta by simp
      from near_unit_step(2)[OF step_unit[OF \<open>i < n\<close>] this sD] i(2)
      show "\<bar>\<bar>\<delta>\<bar> - 1\<bar> \<le> 4 * \<eta>" by simp
    qed
    show ?thesis
      using res ts_ne nD Dn wholestep ending mono unit unfolding D_def
      by (intro exI[of _ ts] exI[of _ "rnd (rnd (1 / rate) * 60)"] exI[of _ n]) simp
  qed
qed

lemma round_to_1024ths_close: "\<bar>round_to_1024ths x - x\<bar> \<le> 1 / 2048"
proof -
  define y where "y = x * 1024 + 1 / 2"
  have "of_int \<lfloor>y\<rfloor> \<le> y" "y < of_int \<lfloor>y\<rfloor> + 1" by linarith+
  then have "\<bar>of_int \<lfloor>y\<rfloor> - x * 1024\<bar> \<le> 1 / 2" unfolding y_def by linarith
  then have "\<bar>(of_int \<lfloor>y\<rfloor> - x * 1024) / 1024\<bar> \<le> (1 / 2) / 1024"
    by (simp only: abs_divide) (simp add: divide_le_cancel)
  then show ?thesis by (simp add: round_to_1024ths_def y_def diff_divide_distrib)
qed

text \<open>
  Claim C2, amended: for every \<open>rate > 0\<close> and all \<open>current\<close> and \<open>target\<close> of magnitude
  at most \<open>M\<close>, in arithmetic that rounds by at most \<open>\<eta> \<le> 0.01\<close>, the planner returns a
  non-empty plan. Its first \<open>n\<close> setpoints are the whole-step setpoints
  \<open>current \<plusminus> 1, current \<plusminus> 2, \<dots>\<close> in the direction of \<open>target - current\<close>, each within
  \<open>2 * \<eta>\<close>, where \<open>n\<close> is the number of whole steps in the distance, up to \<open>2 * \<eta>\<close>. The
  plan is strictly monotonic in the direction of \<open>target - current\<close>, from the current
  temperature on. Every step but possibly the last has a magnitude within \<open>4 * \<eta>\<close> of the
  step size 1, so exactly 1 in exact arithmetic. The plan ends at exactly the target when
  the distance is below one step or the last whole-step setpoint is more than 0.1 away
  from the target, and it ends at the last whole-step setpoint otherwise, which is then
  within \<open>0.1 + 2 * \<eta>\<close> of the target.
\<close>

theorem rounded_plan_monotone_unit_steps_ends_at_target_or_last_step:
  assumes "\<forall>x. \<bar>x\<bar> \<le> 4 * M + 1 \<longrightarrow> \<bar>rnd x - x\<bar> \<le> \<eta>"
    and "\<eta> \<le> 1 / 100"
    and "\<bar>current\<bar> \<le> M" and "\<bar>target\<bar> \<le> M" and "0 < rate"
  shows "\<exists>ts dwell n.
     calculate_intermediate_temps_rounded rnd current target rate = Inr (ts, dwell) \<and> ts \<noteq> [] \<and>
     real n \<le> \<bar>target - current\<bar> + 2 * \<eta> \<and> \<bar>target - current\<bar> - 2 * \<eta> < real n + 1 \<and>
     (\<forall>i<n. \<bar>ts ! i - (current + sgn (target - current) * real (Suc i))\<bar> \<le> 2 * \<eta>) \<and>
     (length ts = n \<and> \<bar>last ts - target\<bar> \<le> 1 / 10 + 2 * \<eta> \<or>
      length ts = Suc n \<and> last ts = target \<and>
        (n = 0 \<or> 1 / 10 - 2 * \<eta> < \<bar>ts ! (n - 1) - target\<bar>)) \<and>
     (\<forall>\<delta> \<in> set (deltas (current # ts)). sgn \<delta> = sgn (target - current)) \<and>
     (\<forall>\<delta> \<in> set (deltas ts). sgn \<delta> = sgn (target - current)) \<and>
     (\<forall>\<delta> \<in> set (butlast (deltas (current # ts))). \<bar>\<bar>\<delta>\<bar> - 1\<bar> \<le> 4 * \<eta>) \<and>
     (\<forall>\<delta> \<in> set (butlast (deltas ts)). \<bar>\<bar>\<delta>\<bar> - 1\<bar> \<le> 4 * \<eta>)"
proof -
  from rounded_plan_structure[OF assms] obtain ts dwell n where
    h: "calculate_intermediate_temps_rounded rnd current target rate = Inr (ts, dwell)" "ts \<noteq> []"
     "real n \<le> \<bar>target - current\<bar> + 2 * \<eta>" "\<bar>target - current\<bar> - 2 * \<eta> < real n + 1"
     "\<forall>i<n. \<bar>ts ! i - (current + sgn (target - current) * real (Suc i))\<bar> \<le> 2 * \<eta>"
     "length ts = n \<and> \<bar>last ts - target\<bar> \<le> 1 / 10 + 2 * \<eta> \<or>
      length ts = Suc n \<and> last ts = target \<and>
        (n = 0 \<or> 1 / 10 - 2 * \<eta> < \<bar>ts ! (n - 1) - target\<bar>)"
    and m: "\<forall>\<delta> \<in> set (deltas (current # ts)). sgn \<delta> = sgn (target - current)"
    and u: "\<forall>\<delta> \<in> set (butlast (deltas (current # ts))). \<bar>\<bar>\<delta>\<bar> - 1\<bar> \<le> 4 * \<eta>"
    by blast
  have m': "\<forall>\<delta> \<in> set (deltas ts). sgn \<delta> = sgn (target - current)"
    using m deltas_subset[of ts current] by blast
  have u': "\<forall>\<delta> \<in> set (butlast (deltas ts)). \<bar>\<bar>\<delta>\<bar> - 1\<bar> \<le> 4 * \<eta>"
    using u butlast_deltas_subset[of ts current] by blast
  show ?thesis using h m m' u u' by blast
qed

theorem rounded_plan_monotone_unit_steps_ends_at_target_or_last_step_witness:
  "(\<forall>x. \<bar>round_to_1024ths x - x\<bar> \<le> 1 / 2048) \<and> (1 / 2048 :: real) \<le> 1 / 100 \<and>
   \<bar>20 :: real\<bar> \<le> 25 \<and> \<bar>243 / 10 :: real\<bar> \<le> 25 \<and> (0 :: real) < 2 \<and>
   calculate_intermediate_temps_rounded round_to_1024ths 20 (243 / 10) 2 =
     Inr ([21, 22, 23, 24, 243 / 10], 30) \<and>
   (\<exists>ts dwell n.
     calculate_intermediate_temps_rounded round_to_1024ths 20 (243 / 10) 2 = Inr (ts, dwell) \<and>
     ts \<noteq> [] \<and>
     real n \<le> \<bar>243 / 10 - 20\<bar> + 2 * (1 / 2048) \<and>
     \<bar>243 / 10 - 20\<bar> - 2 * (1 / 2048) < real n + 1 \<and>
     (\<forall>i<n. \<bar>ts ! i - (20 + sgn (243 / 10 - 20) * real (Suc i))\<bar> \<le> 2 * (1 / 2048)) \<and>
     (length ts = n \<and> \<bar>last ts - 243 / 10\<bar> \<le> 1 / 10 + 2 * (1 / 2048) \<or>
      length ts = Suc n \<and> last ts = 243 / 10 \<and>
        (n = 0 \<or> 1 / 10 - 2 * (1 / 2048) < \<bar>ts ! (n - 1) - 243 / 10\<bar>)) \<and>
     (\<forall>\<delta> \<in> set (deltas (20 # ts)). sgn \<delta> = sgn (243 / 10 - 20)) \<and>
     (\<forall>\<delta> \<in> set (deltas ts). sgn \<delta> = sgn (243 / 10 - 20)) \<and>
     (\<forall>\<delta> \<in> set (butlast (deltas (20 # ts))). \<bar>\<bar>\<delta>\<bar> - 1\<bar> \<le> 4 * (1 / 2048)) \<and>
     (\<forall>\<delta> \<in> set (butlast (deltas ts)). \<bar>\<bar>\<delta>\<bar> - 1\<bar> \<le> 4 * (1 / 2048)))"
proof -
  have c: "\<forall>x. \<bar>round_to_1024ths x - x\<bar> \<le> 1 / 2048"
    using round_to_1024ths_close by blast
  then have h1: "\<forall>x. \<bar>x\<bar> \<le> 4 * 25 + 1 \<longrightarrow> \<bar>round_to_1024ths x - x\<bar> \<le> 1 / 2048" by blast
  have h2: "(1 / 2048 :: real) \<le> 1 / 100" by simp
  have h3: "\<bar>20 :: real\<bar> \<le> 25" by simp
  have h4: "\<bar>243 / 10 :: real\<bar> \<le> 25" by simp
  have h5: "(0 :: real) < 2" by simp
  have ev: "calculate_intermediate_temps_rounded round_to_1024ths 20 (243 / 10) 2 =
     Inr ([21, 22, 23, 24, 243 / 10], 30)"
    by (simp add: calculate_intermediate_temps_rounded_def round_to_1024ths_def py_int_def
        INTERMEDIATE_STEP_SIZE_def Let_def upto.simps)
  note t = rounded_plan_monotone_unit_steps_ends_at_target_or_last_step[OF h1 h2 h3 h4 h5]
  show ?thesis using c h2 h3 h4 h5 ev t by (intro conjI)
qed

text \<open>
  Claim C7: for every \<open>rate > 0\<close> with at least one whole step between current and
  target, the dwell returned is \<open>INTERMEDIATE_STEP_SIZE / rate * 60\<close> seconds, one value
  for the whole plan; and \<open>current = 20.0\<close>, \<open>target = 24.3\<close>, \<open>rate = 2.0\<close> gives the
  setpoints \<open>[21, 22, 23, 24, 24.3]\<close> with a dwell of 30 seconds.
\<close>

theorem dwell_is_step_over_rate_times_60:
  "(0 < rate \<and> 1 \<le> \<bar>target - current\<bar> \<longrightarrow>
      (\<exists>ts. calculate_intermediate_temps current target rate =
              Inr (ts, of_int INTERMEDIATE_STEP_SIZE / rate * 60))) \<and>
   calculate_intermediate_temps 20 (243 / 10) 2 = Inr ([21, 22, 23, 24, 243 / 10], 30)"
proof
  show "0 < rate \<and> 1 \<le> \<bar>target - current\<bar> \<longrightarrow>
      (\<exists>ts. calculate_intermediate_temps current target rate =
              Inr (ts, of_int INTERMEDIATE_STEP_SIZE / rate * 60))"
  proof
    assume h: "0 < rate \<and> 1 \<le> \<bar>target - current\<bar>"
    then have "rate \<noteq> 0" by simp
    from plan_shape[OF this, of target current] h show
      "\<exists>ts. calculate_intermediate_temps current target rate =
              Inr (ts, of_int INTERMEDIATE_STEP_SIZE / rate * 60)"
      by (simp add: Let_def INTERMEDIATE_STEP_SIZE_def)
  qed
  show "calculate_intermediate_temps 20 (243 / 10) 2 = Inr ([21, 22, 23, 24, 243 / 10], 30)"
    by (simp add: calculate_intermediate_temps_def py_int_def INTERMEDIATE_STEP_SIZE_def
        Let_def upto.simps)
qed

theorem dwell_is_step_over_rate_times_60_witness:
  "(0::real) < 4 \<and> (1::real) \<le> \<bar>10 - 30\<bar> \<and>
   (\<exists>ts. calculate_intermediate_temps 30 10 4 = Inr (ts, 15))"
  using dwell_is_step_over_rate_times_60[of 4 10 30]
  by (simp add: INTERMEDIATE_STEP_SIZE_def)

text \<open>
  Claim C8: whenever the distance to the target is below one step size, and in
  particular when current equals target, the plan is \<open>[target]\<close> with dwell 0.
\<close>

theorem zero_distance_plan:
  "(\<bar>target - current\<bar> < 1 \<longrightarrow>
      calculate_intermediate_temps current target rate = Inr ([target], 0)) \<and>
   calculate_intermediate_temps target target rate = Inr ([target], 0)"
  using short_distance_plan[of target current rate] short_distance_plan[of target target rate]
  by simp

theorem zero_distance_plan_witness:
  "\<bar>41 / 2 - 20\<bar> < (1::real) \<and>
   calculate_intermediate_temps 20 (41 / 2) 2 = Inr ([41 / 2], 0) \<and>
   calculate_intermediate_temps (41 / 2) (41 / 2) 2 = Inr ([41 / 2], 0)"
  using zero_distance_plan[of "41 / 2" 20 2]
  by simp

section \<open>The world operations\<close>

lemma emit_simps:
  "temp_reads (emit e w) = temp_reads w" "clock_reads (emit e w) = clock_reads w"
  "events (emit e w) = events w @ [e]" "tracker (emit e w) = tracker w"
  "experiment_running (emit e w) = experiment_running w"
  by (simp_all add: emit_def)

lemma log_poll_simps:
  "temp_reads (log_poll t c s w) = temp_reads w" "clock_reads (log_poll t c s w) = clock_reads w"
  "events (log_poll t c s w) = events w @ [LogRow t c s]" "tracker (log_poll t c s w) = c"
  "experiment_running (log_poll t c s w) = experiment_running w"
  by (simp_all add: log_poll_def emit_def)

lemma get_temp_simps:
  "fst (get_temp E w) = temp_script E (temp_reads w)"
  "temp_reads (snd (get_temp E w)) = Suc (temp_reads w)"
  "clock_reads (snd (get_temp E w)) = clock_reads w"
  "events (snd (get_temp E w)) = events w"
  "experiment_running (snd (get_temp E w)) = experiment_running w"
  by (simp_all add: get_temp_def)

lemma time_time_simps:
  "fst (time_time E w) = clock_script E (clock_reads w)"
  "temp_reads (snd (time_time E w)) = temp_reads w"
  "clock_reads (snd (time_time E w)) = Suc (clock_reads w)"
  "events (snd (time_time E w)) = events w"
  "experiment_running (snd (time_time E w)) = experiment_running w"
  by (simp_all add: time_time_def)

lemma setpoints_simps:
  "setpoints [] = []" "setpoints (xs @ ys) = setpoints xs @ setpoints ys"
  "setpoints (SetTemp x # es) = x # setpoints es"
  "setpoints (LogRow a b c # es) = setpoints es"
  "setpoints (Print m # es) = setpoints es"
  "setpoints (Sleep d # es) = setpoints es"
  by (simp_all add: setpoints_def)

text \<open>The equations that evaluate a run on scripted instruments.\<close>

lemmas run_defs = ramp_to_temperature_def wait_for_stability_def
  fast_ramp_loop.simps stability_loop.simps get_temp_def time_time_def emit_def log_poll_def
  script_env_def readings_def scripted_def clock_values_def fresh_world_def
  TEMP_TOLERANCE_def STABILITY_DURATION_def SAMPLING_INTERVAL_SECONDS_def

section \<open>Fast-mode ramp\<close>

lemma fast_ramp_exit:
  assumes "\<forall>i<k. \<exists>r. temp_script E (temp_reads w + i) = Returns r \<and> \<not> \<bar>r - target\<bar> \<le> TEMP_TOLERANCE * 2"
    and "temp_script E (temp_reads w + k) = Returns rk" and "\<bar>rk - target\<bar> \<le> TEMP_TOLERANCE * 2"
  shows "\<exists>w'. fast_ramp_loop E target step w = Some (Inr (), w') \<and>
           temp_reads w' = temp_reads w + k + 1 \<and>
           setpoints (events w') = setpoints (events w) \<and> tracker w' = rk"
  using assms
proof (induction k arbitrary: w)
  case 0
  then show ?case
    by (subst fast_ramp_loop.simps) (simp add: get_temp_def log_poll_simps setpoints_simps)
next
  case (Suc k)
  from Suc.prems(1) obtain r where r: "temp_script E (temp_reads w) = Returns r"
    "\<not> \<bar>r - target\<bar> \<le> TEMP_TOLERANCE * 2" by force
  define w1 where "w1 = emit (Sleep SAMPLING_INTERVAL_SECONDS)
           (log_poll target r step (w\<lparr>temp_reads := Suc (temp_reads w)\<rparr>))"
  have step: "fast_ramp_loop E target step w = fast_ramp_loop E target step w1"
    by (subst fast_ramp_loop.simps) (simp add: get_temp_def r w1_def)
  have tr: "temp_reads w1 = Suc (temp_reads w)" and ev: "events w1 = events w @ [LogRow target r step, Sleep SAMPLING_INTERVAL_SECONDS]"
    by (simp_all add: w1_def emit_simps log_poll_simps)
  have a: "\<forall>i<k. \<exists>r. temp_script E (temp_reads w1 + i) = Returns r \<and> \<not> \<bar>r - target\<bar> \<le> TEMP_TOLERANCE * 2"
    using Suc.prems(1) by (auto simp: tr dest: spec[where x="Suc _"])
  have b: "temp_script E (temp_reads w1 + k) = Returns rk" using Suc.prems(2) by (simp add: tr)
  from Suc.IH[OF a b Suc.prems(3)] show ?case
    by (auto simp: step tr ev setpoints_simps)
qed

text \<open>
  Claim C9: in fast mode \<^verbatim>\<open>ramp_to_temperature\<close> commands the target once, after its
  entry reading, and its polling loop exits at the first reading within
  \<open>2 * TEMP_TOLERANCE\<close> of the target, which is 1 degree: if the \<open>k\<close> readings after the
  entry reading are further away and the next one is not, the call returns having taken
  exactly those readings and having commanded exactly the setpoint \<open>target\<close>.
\<close>

theorem fast_mode_exits_at_first_near_reading:
  assumes "temp_script E (temp_reads w) = Returns r0"
    and "\<forall>i<k. \<exists>r. temp_script E (Suc (temp_reads w) + i) = Returns r \<and>
                 \<bar>r - target\<bar> > 2 * TEMP_TOLERANCE"
    and "temp_script E (Suc (temp_reads w) + k) = Returns rk"
    and "\<bar>rk - target\<bar> \<le> 2 * TEMP_TOLERANCE"
  shows "\<exists>w'. ramp_to_temperature E target None step w = Some (Inr (), w') \<and>
           temp_reads w' = temp_reads w + k + 2 \<and>
           setpoints (events w') = setpoints (events w) @ [target] \<and>
           tracker w' = rk \<and> 2 * TEMP_TOLERANCE = 1"
proof -
  define w1 where "w1 = emit (SetTemp target) (w\<lparr>temp_reads := Suc (temp_reads w)\<rparr>)"
  have tr: "temp_reads w1 = Suc (temp_reads w)" and ev: "events w1 = events w @ [SetTemp target]"
    by (simp_all add: w1_def emit_simps)
  have a: "\<forall>i<k. \<exists>r. temp_script E (temp_reads w1 + i) = Returns r \<and>
              \<not> \<bar>r - target\<bar> \<le> TEMP_TOLERANCE * 2"
    using assms(2) unfolding tr by (auto simp: not_le mult.commute)
  have b: "temp_script E (temp_reads w1 + k) = Returns rk" using assms(3) by (simp add: tr)
  have c: "\<bar>rk - target\<bar> \<le> TEMP_TOLERANCE * 2" using assms(4) by (simp add: mult.commute)
  have r: "ramp_to_temperature E target None step w = fast_ramp_loop E target step w1"
    by (simp add: ramp_to_temperature_def get_temp_def assms(1) w1_def)
  from fast_ramp_exit[OF a b c, of step] show ?thesis
    unfolding r tr ev by (auto simp: setpoints_simps TEMP_TOLERANCE_def)
qed

theorem fast_mode_exits_at_first_near_reading_witness:
  "temp_script (script_env (readings [30, 20, 12, 21 / 2, 10]) (clock_values [0]) (Returns ())) 0 = Returns 30 \<and>
   temp_script (script_env (readings [30, 20, 12, 21 / 2, 10]) (clock_values [0]) (Returns ())) 1 = Returns 20 \<and>
   \<bar>20 - 10\<bar> > 2 * TEMP_TOLERANCE \<and>
   temp_script (script_env (readings [30, 20, 12, 21 / 2, 10]) (clock_values [0]) (Returns ())) 2 = Returns 12 \<and>
   \<bar>12 - 10\<bar> > 2 * TEMP_TOLERANCE \<and>
   temp_script (script_env (readings [30, 20, 12, 21 / 2, 10]) (clock_values [0]) (Returns ())) 3 = Returns (21 / 2) \<and>
   \<bar>21 / 2 - 10\<bar> \<le> 2 * TEMP_TOLERANCE \<and>
   (\<exists>w'. ramp_to_temperature (script_env (readings [30, 20, 12, 21 / 2, 10]) (clock_values [0]) (Returns ()))
            10 None 1 fresh_world = Some (Inr (), w') \<and>
         temp_reads w' = 4 \<and> setpoints (events w') = [10] \<and> tracker w' = 21 / 2)"
proof -
  let ?E = "script_env (readings [30, 20, 12, 21 / 2, 10]) (clock_values [0]) (Returns ())"
  have t: "temp_script ?E 0 = Returns 30" "temp_script ?E 1 = Returns 20"
    "temp_script ?E 2 = Returns 12" "temp_script ?E 3 = Returns (21 / 2)"
    by (simp_all add: script_env_def readings_def scripted_def)
  have far: "\<bar>20 - 10\<bar> > 2 * TEMP_TOLERANCE" "\<bar>12 - 10\<bar> > 2 * TEMP_TOLERANCE"
    and near: "\<bar>21 / 2 - 10\<bar> \<le> 2 * TEMP_TOLERANCE"
    by (simp_all add: TEMP_TOLERANCE_def)
  have h1: "temp_script ?E (temp_reads fresh_world) = Returns 30"
    using t by (simp add: fresh_world_def)
  have h2: "\<forall>i<2. \<exists>r. temp_script ?E (Suc (temp_reads fresh_world) + i) = Returns r \<and>
                 \<bar>r - 10\<bar> > 2 * TEMP_TOLERANCE"
    using t far by (auto simp: fresh_world_def less_Suc_eq numeral_2_eq_2)
  have h3: "temp_script ?E (Suc (temp_reads fresh_world) + 2) = Returns (21 / 2)"
    using t by (simp add: fresh_world_def numeral_3_eq_3)
  from fast_mode_exits_at_first_near_reading[OF h1 h2 h3 near, of 1]
  have "\<exists>w'. ramp_to_temperature ?E 10 None 1 fresh_world = Some (Inr (), w') \<and>
         temp_reads w' = 4 \<and> setpoints (events w') = [10] \<and> tracker w' = 21 / 2"
    by (auto simp: fresh_world_def eval_nat_numeral setpoints_simps)
  then show ?thesis using t far near by simp
qed

section \<open>Overshoot sub-phase\<close>

lemma overshoot_loop_exit:
  assumes "\<forall>i<k. \<exists>r. temp_script E (temp_reads w + i) = Returns r \<and> \<not> has_crossed d target r"
    and "temp_script E (temp_reads w + k) = Returns rk" and "has_crossed d target rk"
  shows "\<exists>w' mid. overshoot_loop E target os d step w = Some (Inr (), w') \<and>
           temp_reads w' = temp_reads w + k + 1 \<and>
           events w' = events w @ mid @
             [LogRow os rk step, Print (CrossedTarget rk), SetTemp target, Sleep 2] \<and>
           setpoints mid = [] \<and> tracker w' = rk"
  using assms
proof (induction k arbitrary: w)
  case 0
  then show ?case
    by (subst overshoot_loop.simps)
      (simp add: get_temp_def log_poll_simps emit_simps setpoints_simps)
next
  case (Suc k)
  from Suc.prems(1) obtain r where r: "temp_script E (temp_reads w) = Returns r"
    "\<not> has_crossed d target r" by force
  define w1 where "w1 = emit (Sleep 2) (emit (Print (Approaching d r target \<bar>r - target\<bar>))
           (log_poll os r step (w\<lparr>temp_reads := Suc (temp_reads w)\<rparr>)))"
  have step: "overshoot_loop E target os d step w = overshoot_loop E target os d step w1"
    by (subst overshoot_loop.simps) (simp add: get_temp_def r w1_def)
  have tr: "temp_reads w1 = Suc (temp_reads w)"
    and ev: "events w1 = events w @ [LogRow os r step, Print (Approaching d r target \<bar>r - target\<bar>), Sleep 2]"
    by (simp_all add: w1_def emit_simps log_poll_simps)
  have a: "\<forall>i<k. \<exists>r. temp_script E (temp_reads w1 + i) = Returns r \<and> \<not> has_crossed d target r"
    using Suc.prems(1) by (auto simp: tr dest: spec[where x="Suc _"])
  have b: "temp_script E (temp_reads w1 + k) = Returns rk" using Suc.prems(2) by (simp add: tr)
  from Suc.IH[OF a b Suc.prems(3)] obtain w' mid where
    h: "overshoot_loop E target os d step w1 = Some (Inr (), w')"
       "temp_reads w' = temp_reads w1 + k + 1"
       "events w' = events w1 @ mid @ [LogRow os rk step, Print (CrossedTarget rk), SetTemp target, Sleep 2]"
       "setpoints mid = []" "tracker w' = rk" by blast
  let ?mid = "[LogRow os r step, Print (Approaching d r target \<bar>r - target\<bar>), Sleep 2] @ mid"
  have "events w' = events w @ ?mid @ [LogRow os rk step, Print (CrossedTarget rk), SetTemp target, Sleep 2]"
    using h(3) by (simp add: ev)
  moreover have "setpoints ?mid = []" using h(4) by (simp add: setpoints_simps)
  ultimately show ?case using h(1,2,5) unfolding step tr by (intro exI[of _ w'] exI[of _ ?mid]) simp
qed

lemma overshoot_phase_exit:
  assumes "\<forall>i<k. \<exists>r. temp_script E (temp_reads w + i) = Returns r \<and>
               \<not> (if c > target then r \<le> target else r \<ge> target)"
    and "temp_script E (temp_reads w + k) = Returns rk"
    and "if c > target then rk \<le> target else rk \<ge> target"
  shows "\<exists>w' mid. overshoot_phase E target delta c step w = Some (Inr (), w') \<and>
           temp_reads w' = temp_reads w + k + 1 \<and>
           events w' = events w @
             [Print (OvershootMode (if c > target then Cooling else Heating)),
              SetTemp (if c > target then target - delta else target + delta)] @ mid @
             [LogRow (if c > target then target - delta else target + delta) rk step,
              Print (CrossedTarget rk), SetTemp target, Sleep 2, Sleep 1] \<and>
           setpoints mid = []"
proof -
  define d where "d = (if c > target then Cooling else Heating)"
  define os where "os = (if c > target then target - delta else target + delta)"
  define w1 where "w1 = emit (SetTemp os) (emit (Print (OvershootMode d)) w)"
  have sp: "overshoot_setpoint c target delta = (os, d)"
    by (simp add: overshoot_setpoint_def os_def d_def)
  have tr: "temp_reads w1 = temp_reads w" and ev: "events w1 = events w @ [Print (OvershootMode d), SetTemp os]"
    by (simp_all add: w1_def emit_simps)
  have hc: "has_crossed d target r = (if c > target then r \<le> target else r \<ge> target)" for r
    by (simp add: has_crossed_def d_def)
  have a: "\<forall>i<k. \<exists>r. temp_script E (temp_reads w1 + i) = Returns r \<and> \<not> has_crossed d target r"
    using assms(1) unfolding tr hc by simp
  have b: "temp_script E (temp_reads w1 + k) = Returns rk" using assms(2) by (simp add: tr)
  have c: "has_crossed d target rk" using assms(3) by (simp add: hc)
  from overshoot_loop_exit[OF a b c, of os step] obtain w' mid where
    h: "overshoot_loop E target os d step w1 = Some (Inr (), w')"
       "temp_reads w' = temp_reads w1 + k + 1"
       "events w' = events w1 @ mid @ [LogRow os rk step, Print (CrossedTarget rk), SetTemp target, Sleep 2]"
       "setpoints mid = []" by blast
  have "overshoot_phase E target delta c step w = Some (Inr (), emit (Sleep 1) w')"
    by (simp add: overshoot_phase_def sp h(1) flip: w1_def)
  then show ?thesis using h(2,3,4) unfolding tr ev os_def[symmetric] d_def[symmetric]
    by (intro exI[of _ "emit (Sleep 1) w'"] exI[of _ mid]) (simp add: emit_simps)
qed

text \<open>
  Claim C4: with overshoot enabled, \<^verbatim>\<open>wait_for_stability\<close> takes its entry reading
  \<open>c\<close>, commands \<open>target - delta\<close> when \<open>c > target\<close> (cooling) and \<open>target + delta\<close>
  otherwise (heating), and polls. If the next \<open>k\<close> readings do not satisfy the crossing
  predicate of the direction and the one after them does, the sub-phase ends at that
  reading: no setpoint is commanded in between, the true target is commanded right after
  the row of the crossing reading, and the function goes on to its stabilization loop.
  Only the crossing predicate is tested. For \<open>current = 30\<close>, \<open>target = 10\<close>, \<open>delta = 5\<close>
  and the readings 30, 20, 11, 9 the overshoot setpoint is 5, the sub-phase ends at the
  reading 9, which is outside the tolerance band, and the setpoint commanded next is 10.
\<close>

theorem overshoot_exits_at_first_crossing:
  "(temp_script E (temp_reads w) = Returns c \<and>
    (\<forall>i<k. \<exists>r. temp_script E (Suc (temp_reads w) + i) = Returns r \<and>
               \<not> (if c > target then r \<le> target else r \<ge> target)) \<and>
    temp_script E (Suc (temp_reads w) + k) = Returns rk \<and>
    (if c > target then rk \<le> target else rk \<ge> target)
    \<longrightarrow>
    (\<exists>w' mid. wait_for_stability E target True delta step w =
                stability_loop E target step None w' \<and>
       overshoot_phase E target delta c step (snd (get_temp E w)) = Some (Inr (), w') \<and>
       temp_reads w' = temp_reads w + k + 2 \<and>
       events w' = events w @
         [Print (OvershootMode (if c > target then Cooling else Heating)),
          SetTemp (if c > target then target - delta else target + delta)] @ mid @
         [LogRow (if c > target then target - delta else target + delta) rk step,
          Print (CrossedTarget rk), SetTemp target, Sleep 2, Sleep 1] \<and>
       setpoints mid = [])) \<and>
   overshoot_phase (script_env (readings [30, 20, 11, 9]) (clock_values [0]) (Returns ()))
       10 5 30 1
       (snd (get_temp (script_env (readings [30, 20, 11, 9]) (clock_values [0]) (Returns ()))
              fresh_world)) =
     Some (Inr (),
       \<lparr>temp_reads = 4, clock_reads = 0, tracker = 9, experiment_running = True,
        vna_sweep_count = 0, keyboard_interrupt_count = 0,
        events = [Print (OvershootMode Cooling), SetTemp 5,
                  LogRow 5 20 1, Print (Approaching Cooling 20 10 10), Sleep 2,
                  LogRow 5 11 1, Print (Approaching Cooling 11 10 1), Sleep 2,
                  LogRow 5 9 1, Print (CrossedTarget 9), SetTemp 10, Sleep 2, Sleep 1]\<rparr>) \<and>
   \<not> \<bar>9 - 10\<bar> \<le> TEMP_TOLERANCE"
proof (intro conjI impI)
  assume h: "temp_script E (temp_reads w) = Returns c \<and>
    (\<forall>i<k. \<exists>r. temp_script E (Suc (temp_reads w) + i) = Returns r \<and>
               \<not> (if c > target then r \<le> target else r \<ge> target)) \<and>
    temp_script E (Suc (temp_reads w) + k) = Returns rk \<and>
    (if c > target then rk \<le> target else rk \<ge> target)"
  define w1 where "w1 = snd (get_temp E w)"
  have g: "get_temp E w = (Returns c, w1)" using h by (simp add: get_temp_def w1_def)
  have tr: "temp_reads w1 = Suc (temp_reads w)" and ev: "events w1 = events w"
    by (simp_all add: w1_def get_temp_simps)
  have a: "\<forall>i<k. \<exists>r. temp_script E (temp_reads w1 + i) = Returns r \<and>
               \<not> (if c > target then r \<le> target else r \<ge> target)"
    using h unfolding tr by blast
  have b: "temp_script E (temp_reads w1 + k) = Returns rk" using h unfolding tr by blast
  have c: "if c > target then rk \<le> target else rk \<ge> target" using h by blast
  from overshoot_phase_exit[OF a b c, of delta step] obtain w' mid where
    p: "overshoot_phase E target delta c step w1 = Some (Inr (), w')"
       "temp_reads w' = temp_reads w1 + k + 1"
       "events w' = events w1 @
         [Print (OvershootMode (if c > target then Cooling else Heating)),
          SetTemp (if c > target then target - delta else target + delta)] @ mid @
         [LogRow (if c > target then target - delta else target + delta) rk step,
          Print (CrossedTarget rk), SetTemp target, Sleep 2, Sleep 1]"
       "setpoints mid = []" by blast
  have "wait_for_stability E target True delta step w = stability_loop E target step None w'"
    by (simp add: wait_for_stability_def g p(1))
  then show "\<exists>w' mid. wait_for_stability E target True delta step w =
                stability_loop E target step None w' \<and>
       overshoot_phase E target delta c step (snd (get_temp E w)) = Some (Inr (), w') \<and>
       temp_reads w' = temp_reads w + k + 2 \<and>
       events w' = events w @
         [Print (OvershootMode (if c > target then Cooling else Heating)),
          SetTemp (if c > target then target - delta else target + delta)] @ mid @
         [LogRow (if c > target then target - delta else target + delta) rk step,
          Print (CrossedTarget rk), SetTemp target, Sleep 2, Sleep 1] \<and>
       setpoints mid = []"
    using p unfolding tr ev w1_def[symmetric]
    by (intro exI[of _ w'] exI[of _ mid]) simp
next
  show "overshoot_phase (script_env (readings [30, 20, 11, 9]) (clock_values [0]) (Returns ()))
       10 5 30 1
       (snd (get_temp (script_env (readings [30, 20, 11, 9]) (clock_values [0]) (Returns ()))
              fresh_world)) =
     Some (Inr (),
       \<lparr>temp_reads = 4, clock_reads = 0, tracker = 9, experiment_running = True,
        vna_sweep_count = 0, keyboard_interrupt_count = 0,
        events = [Print (OvershootMode Cooling), SetTemp 5,
                  LogRow 5 20 1, Print (Approaching Cooling 20 10 10), Sleep 2,
                  LogRow 5 11 1, Print (Approaching Cooling 11 10 1), Sleep 2,
                  LogRow 5 9 1, Print (CrossedTarget 9), SetTemp 10, Sleep 2, Sleep 1]\<rparr>)"
    by (simp add: overshoot_phase_def overshoot_setpoint_def overshoot_loop.simps
        script_env_def readings_def scripted_def fresh_world_def
        get_temp_def has_crossed_def emit_def log_poll_def)
next
  show "\<not> \<bar>9 - 10\<bar> \<le> TEMP_TOLERANCE" by (simp add: TEMP_TOLERANCE_def)
qed

theorem overshoot_exits_at_first_crossing_witness:
  "temp_script (script_env (readings [30, 20, 11, 9]) (clock_values [0]) (Returns ())) 0 = Returns 30 \<and>
   temp_script (script_env (readings [30, 20, 11, 9]) (clock_values [0]) (Returns ())) 1 = Returns 20 \<and>
   \<not> (20::real) \<le> 10 \<and>
   temp_script (script_env (readings [30, 20, 11, 9]) (clock_values [0]) (Returns ())) 2 = Returns 11 \<and>
   \<not> (11::real) \<le> 10 \<and>
   temp_script (script_env (readings [30, 20, 11, 9]) (clock_values [0]) (Returns ())) 3 = Returns 9 \<and>
   (9::real) \<le> 10 \<and>
   (\<exists>w' mid.
      wait_for_stability (script_env (readings [30, 20, 11, 9]) (clock_values [0]) (Returns ()))
          10 True 5 1 fresh_world =
        stability_loop (script_env (readings [30, 20, 11, 9]) (clock_values [0]) (Returns ()))
          10 1 None w' \<and>
      temp_reads w' = 4 \<and>
      events w' = [Print (OvershootMode Cooling), SetTemp 5] @ mid @
         [LogRow 5 9 1, Print (CrossedTarget 9), SetTemp 10, Sleep 2, Sleep 1] \<and>
      setpoints mid = [])"
proof -
  let ?E = "script_env (readings [30, 20, 11, 9]) (clock_values [0]) (Returns ())"
  have t: "temp_script ?E 0 = Returns 30" "temp_script ?E 1 = Returns 20"
    "temp_script ?E 2 = Returns 11" "temp_script ?E 3 = Returns 9"
    by (simp_all add: script_env_def readings_def scripted_def)
  have h: "temp_script ?E (temp_reads fresh_world) = Returns 30 \<and>
    (\<forall>i<2. \<exists>r. temp_script ?E (Suc (temp_reads fresh_world) + i) = Returns r \<and>
               \<not> (if (30::real) > 10 then r \<le> 10 else r \<ge> 10)) \<and>
    temp_script ?E (Suc (temp_reads fresh_world) + 2) = Returns 9 \<and>
    (if (30::real) > 10 then (9::real) \<le> 10 else 9 \<ge> (10::real))"
    using t by (auto simp: fresh_world_def less_Suc_eq numeral_2_eq_2 numeral_3_eq_3)
  from overshoot_exits_at_first_crossing[of ?E fresh_world 30 2 10 9 5 1, THEN conjunct1, rule_format, OF h]
  obtain w' mid where
    "wait_for_stability ?E 10 True 5 1 fresh_world = stability_loop ?E 10 1 None w'"
    "temp_reads w' = temp_reads fresh_world + 2 + 2"
    "events w' = events fresh_world @ [Print (OvershootMode Cooling), SetTemp 5] @ mid @
         [LogRow 5 9 1, Print (CrossedTarget 9), SetTemp 10, Sleep 2, Sleep 1]"
    "setpoints mid = []"
    by auto
  then have "\<exists>w' mid.
      wait_for_stability ?E 10 True 5 1 fresh_world = stability_loop ?E 10 1 None w' \<and>
      temp_reads w' = 4 \<and>
      events w' = [Print (OvershootMode Cooling), SetTemp 5] @ mid @
         [LogRow 5 9 1, Print (CrossedTarget 9), SetTemp 10, Sleep 2, Sleep 1] \<and>
      setpoints mid = []"
    by (intro exI[of _ w'] exI[of _ mid]) (simp add: fresh_world_def)
  then show ?thesis using t by simp
qed

section \<open>The sampling thread\<close>

text \<open>
  Claim C5 fails on the code when the sampling thread of the previous experiment is still
  alive. Experiment 1 writes its sweep 1 and ends while its thread is asleep; experiment
  2 resets the counter and its own thread writes sweep 1; the earlier thread wakes,
  finds the flag set again and takes number 2; the thread of experiment 2 is assigned 3
  next. Within experiment 2 the numbers assigned are 1 and 3.
\<close>

theorem earlier_thread_takes_sweep_numbers:
  "sweep_file_numbers (snd (current_thread (sampling_run
      [CounterReset, EarlierCycle good_cycle,
       CounterReset, CurrentCycle good_cycle, EarlierCycle good_cycle, CurrentCycle good_cycle]
      no_sampling))) = [1, 3] \<and>
   fst (current_thread (sampling_run
      [CounterReset, EarlierCycle good_cycle,
       CounterReset, CurrentCycle good_cycle, EarlierCycle good_cycle, CurrentCycle good_cycle]
      no_sampling)) = 3 \<and>
   sweep_file_numbers (snd (earlier_thread (sampling_run
      [CounterReset, EarlierCycle good_cycle,
       CounterReset, CurrentCycle good_cycle, EarlierCycle good_cycle, CurrentCycle good_cycle]
      no_sampling))) = [1, 2]"
  by (simp add: thread_pass_def vna_cycle_def good_cycle_def no_sampling_def
      sweep_file_numbers_def Let_def)

text \<open>
  With one thread alive the numbers assigned go up by one per cycle, and a cycle whose
  acquisition raises has taken its number before the instrument is queried (lines
  457-459): the files written skip it.
\<close>

lemma failed_cycle_consumes_its_number:
  "sweep_file_numbers (snd (current_thread (sampling_run
      [CounterReset, CurrentCycle good_cycle,
       CurrentCycle (good_cycle\<lparr>acquisition := AcquisitionError\<rparr>),
       CurrentCycle good_cycle]
      no_sampling))) = [1, 3] \<and>
   map (\<lambda>k. fst (current_thread (sampling_run
      (take k [CounterReset, CurrentCycle good_cycle,
               CurrentCycle (good_cycle\<lparr>acquisition := AcquisitionError\<rparr>),
               CurrentCycle good_cycle])
      no_sampling))) [2, 3, 4] = [1, 2, 3]"
  by (simp add: thread_pass_def vna_cycle_def good_cycle_def no_sampling_def
      sweep_file_numbers_def Let_def)

text \<open>
  Claim C6 does not hold as stated: when the stop signal has been set by the time the
  handler runs, the guard of line 503 skips the log line, and the cycle only sleeps.
\<close>

theorem stop_signal_silences_sweep_error:
  "out (vna_cycle \<lparr>running_at_top = True, snapshot = 20, acquisition = AcquisitionError,
                  running_in_handler = False\<rparr> fresh_sampler) = [Sleep 5] \<and>
   Print SweepError \<notin> set (out (vna_cycle \<lparr>running_at_top = True, snapshot = 20,
                  acquisition = AcquisitionError, running_in_handler = False\<rparr> fresh_sampler))"
  by (simp add: vna_cycle_def fresh_sampler_def Let_def)

text \<open>
  Claim C6, amended: for every acquisition error raised inside a sampling-task cycle
  while the stop signal is not set, a log line is emitted before the back-off sleep and
  the retry; when the stop signal has been set, the cycle emits no log line and only
  sleeps.
\<close>

theorem sweep_error_logged_while_running:
  assumes "acquisition c = AcquisitionError"
  shows "out (vna_cycle c s) =
           out s @ (if running_in_handler c then [Print SweepError, Sleep 5] else [Sleep 5])"
  using assms by (simp add: vna_cycle_def Let_def)

theorem sweep_error_logged_while_running_witness:
  "acquisition \<lparr>running_at_top = True, snapshot = 20, acquisition = AcquisitionError,
                running_in_handler = True\<rparr> = AcquisitionError \<and>
   out (vna_cycle \<lparr>running_at_top = True, snapshot = 20, acquisition = AcquisitionError,
                running_in_handler = True\<rparr> fresh_sampler) = [Print SweepError, Sleep 5]"
  using sweep_error_logged_while_running[of "\<lparr>running_at_top = True, snapshot = 20,
       acquisition = AcquisitionError, running_in_handler = True\<rparr>" fresh_sampler]
  by (simp add: fresh_sampler_def)

section \<open>Finalization\<close>

lemma finalize_events:
  "events (finalize E temps rr ov amt c w) =
     events w @ [RunningFlag False, SetIdleCalled] @
       (case idle_result E of Returns u \<Rightarrow> [Print IdleModeSet] | Raises e \<Rightarrow> []) @
       [Sleep 2, MetadataWritten (final_metadata E temps rr ov amt c)]"
  by (simp add: finalize_def Let_def emit_def set_running_def split: outcome.splits)

lemma finalize_flag: "experiment_running (finalize E temps rr ov amt c w) = False"
  by (simp add: finalize_def Let_def emit_def set_running_def split: outcome.splits)

text \<open>
  Claim C10: an exception raised by \<^verbatim>\<open>set_idle\<close> during finalization is swallowed,
  and the metadata record is written all the same. In every finalization the stop flag
  is written first, \<^verbatim>\<open>set_idle\<close> is attempted next, and the metadata record is written
  last.
\<close>

theorem failing_idle_does_not_stop_metadata:
  "(idle_result E = Raises e \<longrightarrow>
      events (finalize E temps rr ov amt c w) =
        events w @ [RunningFlag False, SetIdleCalled, Sleep 2,
                    MetadataWritten (final_metadata E temps rr ov amt c)]) \<and>
   events (finalize E temps rr ov amt c w) =
     events w @ [RunningFlag False, SetIdleCalled] @
       (case idle_result E of Returns u \<Rightarrow> [Print IdleModeSet] | Raises e \<Rightarrow> []) @
       [Sleep 2, MetadataWritten (final_metadata E temps rr ov amt c)] \<and>
   experiment_running (finalize E temps rr ov amt c w) = False \<and>
   completed (final_metadata E temps rr ov amt c) = c"
  by (simp add: finalize_events finalize_flag final_metadata_def)

theorem failing_idle_does_not_stop_metadata_witness:
  "idle_result (script_env (readings []) (clock_values [0]) (Raises DeviceError)) = Raises DeviceError \<and>
   events (finalize (script_env (readings []) (clock_values [0]) (Raises DeviceError))
             [10] None False 10 False fresh_world) =
     [RunningFlag False, SetIdleCalled, Sleep 2,
      MetadataWritten \<lparr>temperature_targets = [10], controlled_ramp = False,
        ramp_rate_C_per_min = None, overshoot_enabled = False, overshoot_amount_C = None,
        total_sweeps = 0, completed = False\<rparr>]"
  using failing_idle_does_not_stop_metadata[of
      "script_env (readings []) (clock_values [0]) (Raises DeviceError)" DeviceError
      "[10]" None False 10 False fresh_world]
  by (simp add: script_env_def fresh_world_def final_metadata_def)

section \<open>The stabilization loop\<close>

lemma closes_window_cases:
  assumes "closes_window E target ss w w'"
  obtains (kept) k ck T s where
      "temp_reads w' = Suc k" "clock_reads w' = Suc ck" "temp_script E k = Returns T"
      "events w' \<noteq> []" "ss = Some s" "temp_reads w \<le> k"
      "\<forall>i. temp_reads w \<le> i \<and> i \<le> k \<longrightarrow> in_band E target i"
      "ck = clock_reads w + (k - temp_reads w)"
      "STABILITY_DURATION \<le> clock_script E ck - s"
      "last (events w') = Print (Stabilized T (clock_script E ck - s))"
  | (opened) k ck T j cj where
      "temp_reads w' = Suc k" "clock_reads w' = Suc ck" "temp_script E k = Returns T"
      "events w' \<noteq> []" "temp_reads w \<le> j" "j < k" "clock_reads w \<le> cj" "ck = cj + (k - j)"
      "\<forall>i. j \<le> i \<and> i \<le> k \<longrightarrow> in_band E target i"
      "if j = temp_reads w then ss = None else \<not> in_band E target (j - 1)"
      "STABILITY_DURATION \<le> clock_script E ck - clock_script E cj"
      "last (events w') = Print (Stabilized T (clock_script E ck - clock_script E cj))"
  using assms unfolding closes_window_def by blast

lemma closes_window_kept:
  assumes "temp_reads w' = Suc k" "clock_reads w' = Suc ck" "temp_script E k = Returns T"
      "events w' \<noteq> []" "temp_reads w \<le> k"
      "\<forall>i. temp_reads w \<le> i \<and> i \<le> k \<longrightarrow> in_band E target i"
      "ck = clock_reads w + (k - temp_reads w)"
      "STABILITY_DURATION \<le> clock_script E ck - s"
      "last (events w') = Print (Stabilized T (clock_script E ck - s))"
  shows "closes_window E target (Some s) w w'"
  unfolding closes_window_def using assms by blast

lemma closes_window_opened:
  assumes "temp_reads w' = Suc k" "clock_reads w' = Suc ck" "temp_script E k = Returns T"
      "events w' \<noteq> []" "temp_reads w \<le> j" "j < k" "clock_reads w \<le> cj" "ck = cj + (k - j)"
      "\<forall>i. j \<le> i \<and> i \<le> k \<longrightarrow> in_band E target i"
      "if j = temp_reads w then ss = None else \<not> in_band E target (j - 1)"
      "STABILITY_DURATION \<le> clock_script E ck - clock_script E cj"
      "last (events w') = Print (Stabilized T (clock_script E ck - clock_script E cj))"
  shows "closes_window E target ss w w'"
  unfolding closes_window_def using assms by blast

lemma window_out_of_band:
  assumes "\<not> in_band E target (temp_reads w)"
    and "temp_reads w2 = Suc (temp_reads w)" and "clock_reads w2 = clock_reads w"
    and "closes_window E target None w2 w'"
  shows "closes_window E target ss w w'"
  using assms(4)
proof (cases rule: closes_window_cases)
  case (kept k ck T s)
  then show ?thesis by simp
next
  case (opened k ck T j cj)
  have "if j = temp_reads w then ss = None else \<not> in_band E target (j - 1)"
    using opened(5,10) assms(1,2) by (auto split: if_splits)
  moreover have "temp_reads w \<le> j" "clock_reads w \<le> cj" using opened(5,7) assms(2,3) by simp_all
  ultimately show ?thesis using opened by (intro closes_window_opened[of w' k ck E T w j cj]) auto
qed

lemma in_band_extend:
  assumes "in_band E target p" and "\<forall>i. Suc p \<le> i \<and> i \<le> k \<longrightarrow> in_band E target i"
  shows "\<forall>i. p \<le> i \<and> i \<le> k \<longrightarrow> in_band E target i"
proof (intro allI impI)
  fix i assume "p \<le> i \<and> i \<le> k"
  then show "in_band E target i" using assms by (cases "i = p") auto
qed

lemma window_opened:
  assumes "in_band E target (temp_reads w)"
    and "temp_reads w2 = Suc (temp_reads w)" and "clock_reads w2 = Suc (clock_reads w)"
    and "closes_window E target (Some (clock_script E (clock_reads w))) w2 w'"
  shows "closes_window E target None w w'"
  using assms(4)
proof (cases rule: closes_window_cases)
  case (kept k ck T s)
  have s: "s = clock_script E (clock_reads w)" using kept(5) by simp
  have 1: "temp_reads w < k" using kept(6) assms(2) by simp
  have 2: "ck = clock_reads w + (k - temp_reads w)" using kept(6,8) assms(2,3) by simp
  have 3: "\<forall>i. temp_reads w \<le> i \<and> i \<le> k \<longrightarrow> in_band E target i"
    using in_band_extend[OF assms(1)] kept(7) assms(2) by simp
  show ?thesis
    using kept(1-4,9,10) 1 2 3 unfolding s
    by (intro closes_window_opened[of w' k ck E T w "temp_reads w" "clock_reads w"]) auto
next
  case (opened k ck T j cj)
  have "j \<noteq> temp_reads w2" using opened(10) by (auto split: if_splits)
  then have "temp_reads w \<le> j" "clock_reads w \<le> cj" "j \<noteq> temp_reads w"
    "\<not> in_band E target (j - 1)"
    using opened(5,7,10) assms(2,3) by simp_all
  then show ?thesis using opened
    by (intro closes_window_opened[of w' k ck E T w j cj]) auto
qed

lemma window_continued:
  assumes "in_band E target (temp_reads w)"
    and "temp_reads w2 = Suc (temp_reads w)" and "clock_reads w2 = Suc (clock_reads w)"
    and "closes_window E target (Some s) w2 w'"
  shows "closes_window E target (Some s) w w'"
  using assms(4)
proof (cases rule: closes_window_cases)
  case (kept k ck T s')
  have s: "s' = s" using kept(5) by simp
  have 1: "temp_reads w \<le> k" using kept(6) assms(2) by simp
  have 2: "ck = clock_reads w + (k - temp_reads w)" using kept(6,8) assms(2,3) by simp
  have 3: "\<forall>i. temp_reads w \<le> i \<and> i \<le> k \<longrightarrow> in_band E target i"
    using in_band_extend[OF assms(1)] kept(7) assms(2) by simp
  show ?thesis
    using kept(1-4,9,10) 1 2 3 unfolding s
    by (intro closes_window_kept[of w' k ck E T w]) auto
next
  case (opened k ck T j cj)
  have "j \<noteq> temp_reads w2" using opened(10) by (auto split: if_splits)
  then have "temp_reads w \<le> j" "clock_reads w \<le> cj" "j \<noteq> temp_reads w"
    "\<not> in_band E target (j - 1)"
    using opened(5,7,10) assms(2,3) by simp_all
  then show ?thesis using opened
    by (intro closes_window_opened[of w' k ck E T w j cj]) auto
qed

lemma window_returned:
  assumes "temp_script E (temp_reads w) = Returns T" and "\<bar>T - target\<bar> \<le> TEMP_TOLERANCE"
    and "temp_reads w' = Suc (temp_reads w)" and "clock_reads w' = Suc (clock_reads w)"
    and "STABILITY_DURATION \<le> clock_script E (clock_reads w) - s"
    and "events w' \<noteq> []"
    and "last (events w') = Print (Stabilized T (clock_script E (clock_reads w) - s))"
  shows "closes_window E target (Some s) w w'"
proof -
  have "in_band E target (temp_reads w)" using assms(1,2) by (simp add: in_band_def)
  then have "\<forall>i. temp_reads w \<le> i \<and> i \<le> temp_reads w \<longrightarrow> in_band E target i" by auto
  then show ?thesis using assms
    by (intro closes_window_kept[of w' "temp_reads w" "clock_reads w" E T w]) auto
qed

lemma stability_loop_exit:
  assumes "stability_loop E target step ss w = Some y"
  shows "(\<forall>b. fst y = Inr b \<longrightarrow> b \<and> closes_window E target ss w (snd y)) \<and>
         (\<forall>e. fst y = Inl e \<longrightarrow> temp_reads w < temp_reads (snd y) \<and>
                 temp_script E (temp_reads (snd y) - 1) = Raises e)"
proof (induction rule: stability_loop.raw_induct[OF _ assms])
  case (1 loop E target step ss w y)
  define w1 where "w1 = w\<lparr>temp_reads := Suc (temp_reads w)\<rparr>"
  have g: "get_temp E w = (temp_script E (temp_reads w), w1)"
    by (simp add: get_temp_def w1_def)
  show ?case
  proof (cases "temp_script E (temp_reads w)")
    case (Raises e)
    with 1(2) g have "y = (Inl e, w1)" by simp
    then show ?thesis using Raises by (simp add: w1_def)
  next
    case (Returns T)
    show ?thesis
    proof (cases "\<bar>T - target\<bar> \<le> TEMP_TOLERANCE")
      case False
      define w2 where "w2 = emit (Sleep 2)
                    (if ss \<noteq> None
                     then emit (Print (LeftTolerance T)) (log_poll target T step w1)
                     else log_poll target T step w1)"
      have tr: "temp_reads w2 = Suc (temp_reads w)" and cr: "clock_reads w2 = clock_reads w"
        by (simp_all add: w2_def w1_def emit_simps log_poll_simps)
      have nb: "\<not> in_band E target (temp_reads w)" using Returns False by (simp add: in_band_def)
      from False 1(2) g Returns have "loop E target step None w2 = Some y" by (simp add: w2_def)
      from 1(1)[OF this] show ?thesis
        using window_out_of_band[OF nb tr cr] tr by auto
    next
      case True
      have ib: "in_band E target (temp_reads w)" using Returns True by (simp add: in_band_def)
      define t where "t = clock_script E (clock_reads w)"
      define w2 where "w2 = (log_poll target T step w1)\<lparr>clock_reads := Suc (clock_reads w)\<rparr>"
      have c: "time_time E (log_poll target T step w1) = (t, w2)"
        by (simp add: time_time_def t_def w2_def w1_def log_poll_simps)
      have tr: "temp_reads w2 = Suc (temp_reads w)" and cr: "clock_reads w2 = Suc (clock_reads w)"
        by (simp_all add: w2_def w1_def log_poll_simps)
      show ?thesis
      proof (cases ss)
        case None
        define w3 where "w3 = emit (Sleep 2) (emit (Print (EnteredTolerance T)) w2)"
        have tr3: "temp_reads w3 = Suc (temp_reads w)" and cr3: "clock_reads w3 = Suc (clock_reads w)"
          by (simp_all add: w3_def emit_simps tr cr)
        from None True 1(2) g Returns c have "loop E target step (Some t) w3 = Some y"
          by (simp add: w3_def)
        from 1(1)[OF this] show ?thesis
          using window_opened[OF ib tr3 cr3] tr3 unfolding None t_def by auto
      next
        case (Some started)
        show ?thesis
        proof (cases "STABILITY_DURATION \<le> t - started")
          case dur: True
          define w3 where "w3 = emit (Print (Stabilized T (t - started))) w2"
          from dur Some True 1(2) g Returns c have y: "y = (Inr True, w3)" by (simp add: w3_def)
          have "closes_window E target (Some started) w w3"
            using Returns True dur
            by (intro window_returned[of E w T]) (simp_all add: w3_def emit_simps tr cr t_def)
          then show ?thesis by (simp add: y Some)
        next
          case False
          define w3 where "w3 = emit (Sleep 2) w2"
          have tr3: "temp_reads w3 = Suc (temp_reads w)" and cr3: "clock_reads w3 = Suc (clock_reads w)"
            by (simp_all add: w3_def emit_simps tr cr)
          from False Some True 1(2) g Returns c
          have "loop E target step (Some started) w3 = Some y" by (simp add: w3_def)
          from 1(1)[OF this] show ?thesis
            using window_continued[OF ib tr3 cr3] tr3 unfolding Some by auto
        qed
      qed
    qed
  qed
qed

lemma leaving_band_resets:
  assumes "temp_script E (temp_reads w) = Returns T" and "\<bar>T - target\<bar> > TEMP_TOLERANCE"
  shows "stability_loop E target step (Some s) w =
         stability_loop E target step None
           (emit (Sleep 2) (emit (Print (LeftTolerance T))
              (log_poll target T step (snd (get_temp E w)))))"
  using assms by (subst stability_loop.simps) (simp add: get_temp_def)

text \<open>
  Claim C3: the core stabilization loop of \<^verbatim>\<open>wait_for_stability\<close> has no failure exit
  and returns success only after one unbroken in-band window of at least the required
  duration. Whenever the loop, entered with no window open, ends, it has either returned
  \<^verbatim>\<open>True\<close> or passed on the exception of its last temperature read. When it returns
  \<^verbatim>\<open>True\<close> at reading \<open>k\<close>, some earlier reading \<open>j\<close> opened a window, as the first
  reading of the loop or right after an out-of-band reading; every reading from \<open>j\<close> to
  \<open>k\<close> is in band; each of them read the clock once, \<open>cj\<close> at the opening and \<open>ck\<close> at
  the return; and the duration that is checked against \<open>STABILITY_DURATION\<close> and printed
  is \<open>clock ck - clock cj\<close>. A reading outside the band while a window is open makes the
  loop go on with no window open. On the trace in, in, out, in, in, in, in with clock
  values 0, 2 for the first window and 6, 8, 10, 12 for the second, the loop returns at
  the seventh reading with the duration 6 measured from the second window's start, where
  the first window's start would have given a return at the fourth reading.
\<close>

theorem stabilization_needs_one_unbroken_window:
  "(stability_loop E target step None w = Some (r, w') \<longrightarrow>
      (r = Inr True \<and>
       (\<exists>j k cj ck Tk.
          temp_reads w \<le> j \<and> j < k \<and> temp_reads w' = Suc k \<and>
          clock_reads w \<le> cj \<and> ck = cj + (k - j) \<and> clock_reads w' = Suc ck \<and>
          (\<forall>i. j \<le> i \<and> i \<le> k \<longrightarrow> in_band E target i) \<and>
          (j = temp_reads w \<or> \<not> in_band E target (j - 1)) \<and>
          STABILITY_DURATION \<le> clock_script E ck - clock_script E cj \<and>
          temp_script E k = Returns Tk \<and>
          last (events w') = Print (Stabilized Tk (clock_script E ck - clock_script E cj))))
      \<or> (\<exists>e. r = Inl e \<and> temp_script E (temp_reads w' - 1) = Raises e)) \<and>
   (temp_script E (temp_reads w) = Returns T \<and> \<bar>T - target\<bar> > TEMP_TOLERANCE \<longrightarrow>
      stability_loop E target step (Some s) w =
        stability_loop E target step None
          (emit (Sleep 2) (emit (Print (LeftTolerance T))
             (log_poll target T step (snd (get_temp E w)))))) \<and>
   stability_loop
       (script_env (readings [10, 41 / 4, 11, 10, 81 / 8, 79 / 8, 10])
          (clock_values [0, 2, 6, 8, 10, 12]) (Returns ()))
       10 1 None fresh_world =
     Some (Inr True,
       \<lparr>temp_reads = 7, clock_reads = 6, tracker = 10, experiment_running = True,
        vna_sweep_count = 0, keyboard_interrupt_count = 0,
        events = [LogRow 10 10 1, Print (EnteredTolerance 10), Sleep 2,
                  LogRow 10 (41 / 4) 1, Sleep 2,
                  LogRow 10 11 1, Print (LeftTolerance 11), Sleep 2,
                  LogRow 10 10 1, Print (EnteredTolerance 10), Sleep 2,
                  LogRow 10 (81 / 8) 1, Sleep 2,
                  LogRow 10 (79 / 8) 1, Sleep 2,
                  LogRow 10 10 1, Print (Stabilized 10 6)]\<rparr>)"
proof (intro conjI impI)
  assume a: "stability_loop E target step None w = Some (r, w')"
  from stability_loop_exit[OF a] have
    ok: "\<forall>b. r = Inr b \<longrightarrow> b \<and> closes_window E target None w w'"
    and ex: "\<forall>e. r = Inl e \<longrightarrow> temp_script E (temp_reads w' - 1) = Raises e"
    by auto
  show "(r = Inr True \<and>
       (\<exists>j k cj ck Tk.
          temp_reads w \<le> j \<and> j < k \<and> temp_reads w' = Suc k \<and>
          clock_reads w \<le> cj \<and> ck = cj + (k - j) \<and> clock_reads w' = Suc ck \<and>
          (\<forall>i. j \<le> i \<and> i \<le> k \<longrightarrow> in_band E target i) \<and>
          (j = temp_reads w \<or> \<not> in_band E target (j - 1)) \<and>
          STABILITY_DURATION \<le> clock_script E ck - clock_script E cj \<and>
          temp_script E k = Returns Tk \<and>
          last (events w') = Print (Stabilized Tk (clock_script E ck - clock_script E cj))))
      \<or> (\<exists>e. r = Inl e \<and> temp_script E (temp_reads w' - 1) = Raises e)"
  proof (cases r)
    case (Inl e)
    with ex show ?thesis by simp
  next
    case (Inr b)
    with ok have b: "b" and cw: "closes_window E target None w w'" by simp_all
    from cw have "\<exists>j k cj ck Tk.
          temp_reads w \<le> j \<and> j < k \<and> temp_reads w' = Suc k \<and>
          clock_reads w \<le> cj \<and> ck = cj + (k - j) \<and> clock_reads w' = Suc ck \<and>
          (\<forall>i. j \<le> i \<and> i \<le> k \<longrightarrow> in_band E target i) \<and>
          (j = temp_reads w \<or> \<not> in_band E target (j - 1)) \<and>
          STABILITY_DURATION \<le> clock_script E ck - clock_script E cj \<and>
          temp_script E k = Returns Tk \<and>
          last (events w') = Print (Stabilized Tk (clock_script E ck - clock_script E cj))"
    proof (cases rule: closes_window_cases)
      case (kept k ck T s)
      then show ?thesis by simp
    next
      case (opened k ck T j cj)
      have "j = temp_reads w \<or> \<not> in_band E target (j - 1)"
        using opened(10) by (auto split: if_splits)
      with opened show ?thesis
        by (intro exI[of _ j] exI[of _ k] exI[of _ cj] exI[of _ ck] exI[of _ T]) simp
    qed
    with Inr b show ?thesis by simp
  qed
next
  assume "temp_script E (temp_reads w) = Returns T \<and> \<bar>T - target\<bar> > TEMP_TOLERANCE"
  then show "stability_loop E target step (Some s) w =
        stability_loop E target step None
          (emit (Sleep 2) (emit (Print (LeftTolerance T))
             (log_poll target T step (snd (get_temp E w)))))"
    using leaving_band_resets[of E w T target step s] by simp
next
  show "stability_loop
       (script_env (readings [10, 41 / 4, 11, 10, 81 / 8, 79 / 8, 10])
          (clock_values [0, 2, 6, 8, 10, 12]) (Returns ()))
       10 1 None fresh_world =
     Some (Inr True,
       \<lparr>temp_reads = 7, clock_reads = 6, tracker = 10, experiment_running = True,
        vna_sweep_count = 0, keyboard_interrupt_count = 0,
        events = [LogRow 10 10 1, Print (EnteredTolerance 10), Sleep 2,
                  LogRow 10 (41 / 4) 1, Sleep 2,
                  LogRow 10 11 1, Print (LeftTolerance 11), Sleep 2,
                  LogRow 10 10 1, Print (EnteredTolerance 10), Sleep 2,
                  LogRow 10 (81 / 8) 1, Sleep 2,
                  LogRow 10 (79 / 8) 1, Sleep 2,
                  LogRow 10 10 1, Print (Stabilized 10 6)]\<rparr>)"
    by (simp add: run_defs)
qed

theorem stabilization_needs_one_unbroken_window_witness:
  "stability_loop
       (script_env (readings [10, 41 / 4, 11, 10, 81 / 8, 79 / 8, 10])
          (clock_values [0, 2, 6, 8, 10, 12]) (Returns ()))
       10 1 None fresh_world =
     Some (Inr True,
       \<lparr>temp_reads = 7, clock_reads = 6, tracker = 10, experiment_running = True,
        vna_sweep_count = 0, keyboard_interrupt_count = 0,
        events = [LogRow 10 10 1, Print (EnteredTolerance 10), Sleep 2,
                  LogRow 10 (41 / 4) 1, Sleep 2,
                  LogRow 10 11 1, Print (LeftTolerance 11), Sleep 2,
                  LogRow 10 10 1, Print (EnteredTolerance 10), Sleep 2,
                  LogRow 10 (81 / 8) 1, Sleep 2,
                  LogRow 10 (79 / 8) 1, Sleep 2,
                  LogRow 10 10 1, Print (Stabilized 10 6)]\<rparr>) \<and>
   (\<exists>j k cj ck Tk.
      j < k \<and> Suc k = 7 \<and> ck = cj + (k - j) \<and> Suc ck = 6 \<and>
      (\<forall>i. j \<le> i \<and> i \<le> k \<longrightarrow>
         in_band (script_env (readings [10, 41 / 4, 11, 10, 81 / 8, 79 / 8, 10])
                    (clock_values [0, 2, 6, 8, 10, 12]) (Returns ())) 10 i) \<and>
      STABILITY_DURATION \<le> clock_values [0, 2, 6, 8, 10, 12] ck - clock_values [0, 2, 6, 8, 10, 12] cj \<and>
      Print (Stabilized 10 6) =
        Print (Stabilized Tk (clock_values [0, 2, 6, 8, 10, 12] ck - clock_values [0, 2, 6, 8, 10, 12] cj))) \<and>
   temp_script (script_env (readings [10, 41 / 4, 11, 10, 81 / 8, 79 / 8, 10])
                    (clock_values [0, 2, 6, 8, 10, 12]) (Returns ())) 2 = Returns 11 \<and>
   \<bar>11 - 10\<bar> > TEMP_TOLERANCE"
proof -
  let ?E = "script_env (readings [10, 41 / 4, 11, 10, 81 / 8, 79 / 8, 10])
                    (clock_values [0, 2, 6, 8, 10, 12]) (Returns ())"
  let ?w = "\<lparr>temp_reads = 7, clock_reads = 6, tracker = 10, experiment_running = True,
        vna_sweep_count = 0, keyboard_interrupt_count = 0,
        events = [LogRow 10 10 1, Print (EnteredTolerance 10), Sleep 2,
                  LogRow 10 (41 / 4) 1, Sleep 2,
                  LogRow 10 11 1, Print (LeftTolerance 11), Sleep 2,
                  LogRow 10 10 1, Print (EnteredTolerance 10), Sleep 2,
                  LogRow 10 (81 / 8) 1, Sleep 2,
                  LogRow 10 (79 / 8) 1, Sleep 2,
                  LogRow 10 10 1, Print (Stabilized 10 6)]\<rparr>"
  have run: "stability_loop ?E 10 1 None fresh_world = Some (Inr True, ?w)"
    by (simp add: run_defs)
  have cs: "clock_script ?E = clock_values [0, 2, 6, 8, 10, 12]" by (simp add: script_env_def)
  from stabilization_needs_one_unbroken_window[of ?E 10 1 fresh_world "Inr True" ?w,
      THEN conjunct1, rule_format, OF run]
  obtain j k cj ck Tk where w:
      "j < k" "temp_reads ?w = Suc k" "ck = cj + (k - j)" "clock_reads ?w = Suc ck"
      "\<forall>i. j \<le> i \<and> i \<le> k \<longrightarrow> in_band ?E 10 i"
      "STABILITY_DURATION \<le> clock_script ?E ck - clock_script ?E cj"
      "last (events ?w) = Print (Stabilized Tk (clock_script ?E ck - clock_script ?E cj))"
    by blast
  have "j < k \<and> Suc k = 7 \<and> ck = cj + (k - j) \<and> Suc ck = 6 \<and>
      (\<forall>i. j \<le> i \<and> i \<le> k \<longrightarrow> in_band ?E 10 i) \<and>
      STABILITY_DURATION \<le> clock_values [0, 2, 6, 8, 10, 12] ck - clock_values [0, 2, 6, 8, 10, 12] cj \<and>
      Print (Stabilized 10 6) =
        Print (Stabilized Tk (clock_values [0, 2, 6, 8, 10, 12] ck - clock_values [0, 2, 6, 8, 10, 12] cj))"
    using w unfolding cs by simp
  then have "\<exists>j k cj ck Tk.
      j < k \<and> Suc k = 7 \<and> ck = cj + (k - j) \<and> Suc ck = 6 \<and>
      (\<forall>i. j \<le> i \<and> i \<le> k \<longrightarrow> in_band ?E 10 i) \<and>
      STABILITY_DURATION \<le> clock_values [0, 2, 6, 8, 10, 12] ck - clock_values [0, 2, 6, 8, 10, 12] cj \<and>
      Print (Stabilized 10 6) =
        Print (Stabilized Tk (clock_values [0, 2, 6, 8, 10, 12] ck - clock_values [0, 2, 6, 8, 10, 12] cj))"
    by blast
  moreover have "temp_script ?E 2 = Returns 11"
    by (simp add: script_env_def readings_def scripted_def)
  moreover have "\<bar>11 - 10\<bar> > TEMP_TOLERANCE" by (simp add: TEMP_TOLERANCE_def)
  ultimately show ?thesis using run by (intro conjI)
qed

section \<open>The per-target loop produces no finalization event\<close>

















section \<open>Finalization runs once\<close>










end
